theory Spec2Isabelle
  imports Main "HOL-Library.Multiset" "HOL-Library.Product_Lexorder" "HOL-Library.AList"
begin

section \<open>Shared vocabulary\<close>

text \<open>
  The enumerations live in \<^verbatim>\<open>idds.common.constants\<close>, which is not among the sources.
  Modelled from the spec: section 3 (Enumerations) gives the symbolic names; the two locking
  enumerations have the members the sources use (\<^verbatim>\<open>Idle\<close>, \<^verbatim>\<open>Locking\<close>).
\<close>

datatype ProcessingStatus =
    ProcessingStatus_New | ProcessingStatus_Submitting | ProcessingStatus_Submitted
  | ProcessingStatus_Running | ProcessingStatus_Finished | ProcessingStatus_Failed
  | ProcessingStatus_Lost | ProcessingStatus_Cancelled

datatype TransformStatus =
    TransformStatus_New | TransformStatus_Transforming | TransformStatus_Finished
  | TransformStatus_SubFinished | TransformStatus_Failed | TransformStatus_Lost
  | TransformStatus_Cancelled | TransformStatus_ToCancel | TransformStatus_Suspended

datatype ProcessingLocking = ProcessingLocking_Idle | ProcessingLocking_Locking

datatype TransformLocking = TransformLocking_Idle | TransformLocking_Locking

datatype GranularityType = GranularityType_File | GranularityType_Event

text \<open>
  Every exception the modelled functions raise or let escape is a value:
  the three of \<^verbatim>\<open>idds.common.exceptions\<close> the repository layer raises, the two the
  stage-in work raises, and Python's own.
\<close>

datatype error =
    NoObject | DuplicatedObject | DatabaseException
  | IDDSException | ProcessNotFound
  | KeyError | IndexError | TypeError | AttributeError

text \<open>Timestamps and periods are counted in seconds; metadata columns hold opaque JSON text.\<close>

type_synonym timestamp = int
type_synonym json = string

text \<open>
  \<^verbatim>\<open>to_dict()\<close> and \<^verbatim>\<open>to_dict_json()\<close> of the ORM models (not among the sources) render
  a row; the rendering keeps which of the two was asked for and the row itself.
\<close>

datatype 'r rendered = To_dict 'r | To_dict_json 'r

definition render :: "bool \<Rightarrow> 'r \<Rightarrow> 'r rendered" where
  "render to_json r = (if to_json then To_dict_json r else To_dict r)"

text \<open>
  \<^verbatim>\<open>Query.first()\<close>: the first row of the result, or \<^verbatim>\<open>None\<close> when the result is empty.
  It never raises \<^verbatim>\<open>NoResultFound\<close> (only \<^verbatim>\<open>Query.one()\<close> does).
\<close>

fun first :: "'r list \<Rightarrow> 'r option" where
  "first [] = None"
| "first (r # rs) = Some r"

section \<open>Repository of processings (orm/processings.py)\<close>

text \<open>
  \<^verbatim>\<open>models.Processing\<close> is not among the sources.
  Modelled from the spec: the columns of a Processing row are those of section 3.
\<close>

record processing_columns =
  transform_id :: int
  status :: ProcessingStatus
  substatus :: ProcessingStatus
  locking :: ProcessingLocking
  submitter :: "string option"
  granularity :: "int option"
  granularity_type :: GranularityType
  expired_at :: "timestamp option"
  processing_metadata :: "json option"
  output_metadata :: "json option"

text \<open>
  A stored row: the columns the constructor of \<^verbatim>\<open>models.Processing\<close> is given in
  \<^verbatim>\<open>create_processing\<close>, and the columns the store fills in.
\<close>

record processing = processing_columns +
  processing_id :: int
  created_at :: timestamp
  updated_at :: timestamp
  next_poll_at :: timestamp
  finished_at :: "timestamp option"

text \<open>
  \<^verbatim>\<open>create_processing(transform_id, status, locking, submitter, granularity, granularity_type,
  expired_at, processing_metadata, substatus, output_metadata)\<close>: the object before it is saved.
\<close>

definition create_processing ::
  "int \<Rightarrow> ProcessingStatus \<Rightarrow> ProcessingLocking \<Rightarrow> string option \<Rightarrow> int option \<Rightarrow>
   GranularityType \<Rightarrow> timestamp option \<Rightarrow> json option \<Rightarrow> ProcessingStatus \<Rightarrow> json option \<Rightarrow>
   processing_columns" where
  "create_processing transform_id' status' locking' submitter' granularity' granularity_type'
     expired_at' processing_metadata' substatus' output_metadata' =
     \<lparr>transform_id = transform_id', status = status', substatus = substatus',
      locking = locking', submitter = submitter', granularity = granularity',
      granularity_type = granularity_type', expired_at = expired_at',
      processing_metadata = processing_metadata', output_metadata = output_metadata'\<rparr>"

text \<open>
  \<^verbatim>\<open>new_processing.save(session=session)\<close> is a method of the ORM models, not among the
  sources. Modelled from the spec: the store assigns the id (larger than every id in the
  table, starting at 1), sets the three timestamps to the time of the insert and leaves
  \<^verbatim>\<open>finished_at\<close> empty; the row is appended to the table. What the store answers is a
  parameter: the insert succeeds, or raises \<^verbatim>\<open>IntegrityError\<close>, or raises another
  \<^verbatim>\<open>DatabaseError\<close>.
\<close>

datatype save_outcome = Saved | Raises_IntegrityError | Raises_DatabaseError

definition next_id :: "int list \<Rightarrow> int" where
  "next_id ids = fold max ids 0 + 1"

definition save_processing :: "processing list \<Rightarrow> timestamp \<Rightarrow> processing_columns \<Rightarrow> processing" where
  "save_processing tbl now new_processing =
     processing_columns.extend new_processing
       (processing.fields (next_id (map processing_id tbl)) now now now None)"

text \<open>
  \<^verbatim>\<open>add_processing(transform_id, status, locking, submitter, granularity, granularity_type,
  expired_at, processing_metadata, output_metadata, session)\<close>. It has no \<^verbatim>\<open>substatus\<close>
  parameter and passes none on, so \<^verbatim>\<open>create_processing\<close> takes its default
  \<^verbatim>\<open>ProcessingStatus.New\<close>. Returns the new table and the id.
\<close>

definition add_processing ::
  "processing list \<Rightarrow> timestamp \<Rightarrow> save_outcome \<Rightarrow>
   int \<Rightarrow> ProcessingStatus \<Rightarrow> ProcessingLocking \<Rightarrow> string option \<Rightarrow> int option \<Rightarrow>
   GranularityType \<Rightarrow> timestamp option \<Rightarrow> json option \<Rightarrow> json option \<Rightarrow>
   error + (processing list \<times> int)" where
  "add_processing tbl now outcome transform_id' status' locking' submitter' granularity'
     granularity_type' expired_at' processing_metadata' output_metadata' =
     (let new_processing = create_processing transform_id' status' locking' submitter'
            granularity' granularity_type' expired_at' processing_metadata'
            ProcessingStatus_New output_metadata'
      in case outcome of
           Saved \<Rightarrow>
             (let row = save_processing tbl now new_processing
              in Inr (tbl @ [row], processing_id row))
         | Raises_IntegrityError \<Rightarrow> Inl DuplicatedObject
         | Raises_DatabaseError \<Rightarrow> Inl DatabaseException)"

text \<open>
  \<^verbatim>\<open>get_processing(processing_id, to_json=False, session=None)\<close>.
  The table is the list of its rows. The handler of \<^verbatim>\<open>NoResultFound\<close> is the only place
  that raises \<^verbatim>\<open>NoObject\<close>, and nothing in the body raises \<^verbatim>\<open>NoResultFound\<close>:
  an empty result takes the branch \<^verbatim>\<open>if not ret: return None\<close>.
\<close>

definition get_processing ::
  "processing list \<Rightarrow> int \<Rightarrow> bool \<Rightarrow> error + processing rendered option" where
  "get_processing tbl pid to_json =
     (case first (filter (\<lambda>r. processing_id r = pid) tbl) of
        None \<Rightarrow> Inr None
      | Some ret \<Rightarrow> Inr (Some (render to_json ret)))"

text \<open>
  The \<^verbatim>\<open>status\<close> argument of the two queries by status is one status or a list of them;
  a list of one element is doubled before it is given to \<^verbatim>\<open>in_\<close>.
\<close>

datatype 's status_selection = One_status 's | Status_list "'s list"

definition status_list :: "'s status_selection \<Rightarrow> 's list" where
  "status_list status' =
     (let status' = (case status' of One_status s \<Rightarrow> [s] | Status_list ss \<Rightarrow> ss)
      in if length status' = 1 then [status' ! 0, status' ! 0] else status')"

text \<open>
  \<^verbatim>\<open>get_processings_by_status(status, period, locking, bulk_size, submitter, to_json, session)\<close>.
  The clock is read once for the filter on \<^verbatim>\<open>next_poll_at\<close> (\<open>now1\<close>) and once more for the
  filter on \<^verbatim>\<open>updated_at\<close> (\<open>now2\<close>). \<^verbatim>\<open>if period:\<close>, \<^verbatim>\<open>if bulk_size:\<close> and
  \<^verbatim>\<open>if submitter:\<close> test truth values: \<^verbatim>\<open>None\<close>, \<^verbatim>\<open>0\<close> and the empty string skip the
  branch. \<^verbatim>\<open>order_by\<close> is a stable sort of the rows in table order; \<^verbatim>\<open>limit\<close> keeps a
  prefix (a negative limit is an error of the database, so \<open>bulk_size\<close> is a natural number).
\<close>

definition get_processings_by_status ::
  "processing list \<Rightarrow> timestamp \<Rightarrow> timestamp \<Rightarrow> ProcessingStatus status_selection \<Rightarrow>
   int option \<Rightarrow> bool \<Rightarrow> nat option \<Rightarrow> string option \<Rightarrow> bool \<Rightarrow>
   error + processing rendered list" where
  "get_processings_by_status tbl now1 now2 status' period locking' bulk_size submitter' to_json =
     (let status' = status_list status';
          query = filter (\<lambda>r. next_poll_at r < now1) (filter (\<lambda>r. status r \<in> set status') tbl);
          query = (case period of
                     Some p \<Rightarrow> if p \<noteq> 0 then filter (\<lambda>r. updated_at r < now2 - p) query else query
                   | None \<Rightarrow> query);
          query = (if locking' then filter (\<lambda>r. locking r = ProcessingLocking_Idle) query
                   else query);
          query = (case submitter' of
                     Some s \<Rightarrow> if s \<noteq> [] then filter (\<lambda>r. submitter r = Some s) query else query
                   | None \<Rightarrow> query);
          query = sort_key updated_at query;
          query = (case bulk_size of
                     Some n \<Rightarrow> if n \<noteq> 0 then take n query else query
                   | None \<Rightarrow> query)
      in Inr (map (render to_json) query))"

text \<open>
  The status in the \<^verbatim>\<open>parameters\<close> of \<^verbatim>\<open>update_processing\<close> and of
  \<^verbatim>\<open>update_transform\<close> is a member of the enumeration or the integer \<^verbatim>\<open>.value\<close> of
  one: \<^verbatim>\<open>update_transform\<close> tests for both, and \<^verbatim>\<open>clean_locking\<close> writes the integer
  \<^verbatim>\<open>0\<close> into the column \<^verbatim>\<open>locking\<close> through the same \<^verbatim>\<open>Query.update\<close>.
  \<open>Value s\<close> stands for the integer \<^verbatim>\<open>s.value\<close>; either way the row gets the status
  \<open>s\<close>. The values of an enumeration are distinct, and a member is not equal to an
  integer.
\<close>

datatype 's status_value = Member 's | Value 's

fun stored_status :: "'s status_value \<Rightarrow> 's" where
  "stored_status (Member s) = s"
| "stored_status (Value s) = s"

text \<open>
  The \<^verbatim>\<open>parameters\<close> dictionary of \<^verbatim>\<open>update_processing\<close>: for every column, the new
  value when the dictionary has the column's key, \<open>None\<close> when it has not.
\<close>

record processing_parameters =
  p_processing_id :: "int option"
  p_transform_id :: "int option"
  p_status :: "ProcessingStatus status_value option"
  p_substatus :: "ProcessingStatus option"
  p_locking :: "ProcessingLocking option"
  p_submitter :: "string option option"
  p_granularity :: "int option option"
  p_granularity_type :: "GranularityType option"
  p_created_at :: "timestamp option"
  p_updated_at :: "timestamp option"
  p_next_poll_at :: "timestamp option"
  p_finished_at :: "timestamp option option"
  p_expired_at :: "timestamp option option"
  p_processing_metadata :: "json option option"
  p_output_metadata :: "json option option"

text \<open>\<^verbatim>\<open>Query.update(parameters)\<close> on one row: every column named in the dictionary is set.\<close>

definition set_column :: "'v option \<Rightarrow> 'v \<Rightarrow> 'v" where
  "set_column new old = (case new of None \<Rightarrow> old | Some v \<Rightarrow> v)"

definition update_processing_row :: "processing_parameters \<Rightarrow> processing \<Rightarrow> processing" where
  "update_processing_row ps r =
     \<lparr>transform_id = set_column (p_transform_id ps) (transform_id r),
      status = set_column (map_option stored_status (p_status ps)) (status r),
      substatus = set_column (p_substatus ps) (substatus r),
      locking = set_column (p_locking ps) (locking r),
      submitter = set_column (p_submitter ps) (submitter r),
      granularity = set_column (p_granularity ps) (granularity r),
      granularity_type = set_column (p_granularity_type ps) (granularity_type r),
      expired_at = set_column (p_expired_at ps) (expired_at r),
      processing_metadata = set_column (p_processing_metadata ps) (processing_metadata r),
      output_metadata = set_column (p_output_metadata ps) (output_metadata r),
      processing_id = set_column (p_processing_id ps) (processing_id r),
      created_at = set_column (p_created_at ps) (created_at r),
      updated_at = set_column (p_updated_at ps) (updated_at r),
      next_poll_at = set_column (p_next_poll_at ps) (next_poll_at r),
      finished_at = set_column (p_finished_at ps) (finished_at r)\<rparr>"

text \<open>
  \<^verbatim>\<open>update_processing(processing_id, parameters, session)\<close>. The clock is read for
  \<^verbatim>\<open>updated_at\<close> (\<open>now1\<close>) and again for \<^verbatim>\<open>finished_at\<close> (\<open>now2\<close>). The dictionary is
  changed in place, so it is returned with the table. \<^verbatim>\<open>Query.update\<close> changes the rows
  that match and raises nothing when none does. The list the status is tested against
  holds the three members only, not their values.
\<close>

definition update_processing ::
  "processing list \<Rightarrow> timestamp \<Rightarrow> timestamp \<Rightarrow> int \<Rightarrow> processing_parameters \<Rightarrow>
   processing list \<times> processing_parameters" where
  "update_processing tbl now1 now2 pid parameters =
     (let parameters = parameters\<lparr>p_updated_at := Some now1\<rparr>;
          parameters =
            (if (case p_status parameters of
                   None \<Rightarrow> False
                 | Some s \<Rightarrow> s \<in> set [Member ProcessingStatus_Finished,
                                        Member ProcessingStatus_Failed,
                                        Member ProcessingStatus_Lost])
             then parameters\<lparr>p_finished_at := Some (Some now2)\<rparr>
             else parameters)
      in (map (\<lambda>r. if processing_id r = pid then update_processing_row parameters r else r) tbl,
          parameters))"

section \<open>Repository of transforms (orm/transforms.py)\<close>

text \<open>
  \<^verbatim>\<open>models.Transform\<close> is not among the sources.
  Modelled from the spec: the columns of a Transform row are those of section 3.
\<close>

record transform =
  t_transform_id :: int
  transform_type :: string
  transform_tag :: "string option"
  priority :: int
  t_status :: TransformStatus
  t_substatus :: TransformStatus
  t_locking :: TransformLocking
  retries :: int
  t_created_at :: timestamp
  t_updated_at :: timestamp
  t_next_poll_at :: timestamp
  t_finished_at :: "timestamp option"
  t_expired_at :: "timestamp option"
  transform_metadata :: "json option"

text \<open>\<^verbatim>\<open>get_transform(transform_id, to_json=False, session=None)\<close>: as \<^verbatim>\<open>get_processing\<close>.\<close>

definition get_transform ::
  "transform list \<Rightarrow> int \<Rightarrow> bool \<Rightarrow> error + transform rendered option" where
  "get_transform tbl tid to_json =
     (case first (filter (\<lambda>r. t_transform_id r = tid) tbl) of
        None \<Rightarrow> Inr None
      | Some ret \<Rightarrow> Inr (Some (render to_json ret)))"

text \<open>
  \<^verbatim>\<open>get_transforms_by_status(status, period, locking, bulk_size, to_json, session)\<close>.
  The two \<^verbatim>\<open>order_by\<close> calls add up to \<^verbatim>\<open>ORDER BY updated_at ASC, priority DESC\<close>:
  a stable sort on the pair of \<^verbatim>\<open>updated_at\<close> and the negated priority.
\<close>

definition transform_order :: "transform \<Rightarrow> timestamp \<times> int" where
  "transform_order r = (t_updated_at r, - priority r)"

definition get_transforms_by_status ::
  "transform list \<Rightarrow> timestamp \<Rightarrow> timestamp \<Rightarrow> TransformStatus status_selection \<Rightarrow>
   int option \<Rightarrow> bool \<Rightarrow> nat option \<Rightarrow> bool \<Rightarrow>
   error + transform rendered list" where
  "get_transforms_by_status tbl now1 now2 status' period locking' bulk_size to_json =
     (let status' = status_list status';
          query = filter (\<lambda>r. t_next_poll_at r < now1)
                    (filter (\<lambda>r. t_status r \<in> set status') tbl);
          query = (case period of
                     Some p \<Rightarrow> if p \<noteq> 0 then filter (\<lambda>r. t_updated_at r < now2 - p) query
                               else query
                   | None \<Rightarrow> query);
          query = (if locking' then filter (\<lambda>r. t_locking r = TransformLocking_Idle) query
                   else query);
          query = sort_key transform_order query;
          query = (case bulk_size of
                     Some n \<Rightarrow> if n \<noteq> 0 then take n query else query
                   | None \<Rightarrow> query)
      in Inr (map (render to_json) query))"

text \<open>
  The \<^verbatim>\<open>parameters\<close> dictionary of \<^verbatim>\<open>update_transform\<close>; its status is a member or the
  integer value of one, as for \<^verbatim>\<open>update_processing\<close>.
\<close>

record transform_parameters =
  p_t_transform_id :: "int option"
  p_transform_type :: "string option"
  p_transform_tag :: "string option option"
  p_priority :: "int option"
  p_t_status :: "TransformStatus status_value option"
  p_t_substatus :: "TransformStatus option"
  p_t_locking :: "TransformLocking option"
  p_retries :: "int option"
  p_t_created_at :: "timestamp option"
  p_t_updated_at :: "timestamp option"
  p_t_next_poll_at :: "timestamp option"
  p_t_finished_at :: "timestamp option option"
  p_t_expired_at :: "timestamp option option"
  p_transform_metadata :: "json option option"

definition update_transform_row :: "transform_parameters \<Rightarrow> transform \<Rightarrow> transform" where
  "update_transform_row ps r =
     \<lparr>t_transform_id = set_column (p_t_transform_id ps) (t_transform_id r),
      transform_type = set_column (p_transform_type ps) (transform_type r),
      transform_tag = set_column (p_transform_tag ps) (transform_tag r),
      priority = set_column (p_priority ps) (priority r),
      t_status = set_column (map_option stored_status (p_t_status ps)) (t_status r),
      t_substatus = set_column (p_t_substatus ps) (t_substatus r),
      t_locking = set_column (p_t_locking ps) (t_locking r),
      retries = set_column (p_retries ps) (retries r),
      t_created_at = set_column (p_t_created_at ps) (t_created_at r),
      t_updated_at = set_column (p_t_updated_at ps) (t_updated_at r),
      t_next_poll_at = set_column (p_t_next_poll_at ps) (t_next_poll_at r),
      t_finished_at = set_column (p_t_finished_at ps) (t_finished_at r),
      t_expired_at = set_column (p_t_expired_at ps) (t_expired_at r),
      transform_metadata = set_column (p_transform_metadata ps) (transform_metadata r)\<rparr>"

text \<open>\<^verbatim>\<open>update_transform(transform_id, parameters, session)\<close>.\<close>

definition update_transform ::
  "transform list \<Rightarrow> timestamp \<Rightarrow> timestamp \<Rightarrow> int \<Rightarrow> transform_parameters \<Rightarrow>
   transform list \<times> transform_parameters" where
  "update_transform tbl now1 now2 tid parameters =
     (let parameters = parameters\<lparr>p_t_updated_at := Some now1\<rparr>;
          parameters =
            (if (case p_t_status parameters of
                   None \<Rightarrow> False
                 | Some s \<Rightarrow> s \<in> set [Member TransformStatus_Finished, Value TransformStatus_Finished,
                                        Member TransformStatus_Failed, Value TransformStatus_Failed])
             then parameters\<lparr>p_t_finished_at := Some (Some now2)\<rparr>
             else parameters)
      in (map (\<lambda>r. if t_transform_id r = tid then update_transform_row parameters r else r) tbl,
          parameters))"

section \<open>The stage-in work (atlas/workflow/atlasstageinwork.py)\<close>

subsection \<open>Python values\<close>

text \<open>Raising is the left summand; \<open>then_do\<close> runs the next statement when none was raised.\<close>

definition then_do :: "error + 'a \<Rightarrow> ('a \<Rightarrow> error + 'b) \<Rightarrow> error + 'b" where
  "then_do r f = (case r of Inl e \<Rightarrow> Inl e | Inr v \<Rightarrow> f v)"

text \<open>
  A dictionary is the list of its items in insertion order. \<^verbatim>\<open>d[k]\<close> raises
  \<^verbatim>\<open>KeyError\<close> on a missing key, \<^verbatim>\<open>xs[0]\<close> raises \<^verbatim>\<open>IndexError\<close> on an empty list;
  \<^verbatim>\<open>d[k] = v\<close> is \<^const>\<open>AList.update\<close>. A key of a record-like dictionary that may be
  missing is an optional field, read by \<open>field_get\<close>.
\<close>

definition dict_get :: "('k \<times> 'v) list \<Rightarrow> 'k \<Rightarrow> error + 'v" where
  "dict_get d k = (case map_of d k of None \<Rightarrow> Inl KeyError | Some v \<Rightarrow> Inr v)"

definition first_item :: "'a list \<Rightarrow> error + 'a" where
  "first_item xs = (case xs of [] \<Rightarrow> Inl IndexError | x # _ \<Rightarrow> Inr x)"

definition field_get :: "'v option \<Rightarrow> error + 'v" where
  "field_get f = (case f of None \<Rightarrow> Inl KeyError | Some v \<Rightarrow> Inr v)"

text \<open>A \<^verbatim>\<open>for\<close> loop whose body may raise: the first exception ends the loop.\<close>

fun for_each :: "('a \<Rightarrow> 's \<Rightarrow> error + 's) \<Rightarrow> 'a list \<Rightarrow> 's \<Rightarrow> error + 's" where
  "for_each body [] s = Inr s"
| "for_each body (x # xs) s = then_do (body x s) (for_each body xs)"

text \<open>
  \<^verbatim>\<open>x['scope']\<close> where \<open>x\<close> is a string raises \<^verbatim>\<open>TypeError\<close> (string indices must be
  integers), and so does \<^verbatim>\<open>x['substatus']\<close> where \<open>x\<close> is a member of an enumeration
  (an \<^verbatim>\<open>Enum\<close> member has no item access).
\<close>

definition subscript_str :: "string \<Rightarrow> string \<Rightarrow> error + string" where
  "subscript_str x key = Inl TypeError"

subsection \<open>Data\<close>

text \<open>
  Modelled from the spec: the members of \<^verbatim>\<open>ContentStatus\<close>, \<^verbatim>\<open>ContentType\<close> and
  \<^verbatim>\<open>CollectionStatus\<close> are those of section 3; \<^verbatim>\<open>WorkStatus\<close> has the members that
  section 4.3.4 and the sources name. \<open>name\<close> is the \<^verbatim>\<open>.name\<close> of a member.
\<close>

datatype ContentStatus =
    ContentStatus_New | ContentStatus_Processing | ContentStatus_Available
  | ContentStatus_Failed | ContentStatus_Lost | ContentStatus_Mapped

datatype ContentType = ContentType_File | ContentType_Event

datatype CollectionStatus =
    CollectionStatus_Open | CollectionStatus_Closed | CollectionStatus_SubClosed
  | CollectionStatus_Failed | CollectionStatus_Deleted

datatype WorkStatus =
    WorkStatus_New | WorkStatus_Transforming | WorkStatus_Finished
  | WorkStatus_SubFinished | WorkStatus_Failed

fun status_name :: "ContentStatus \<Rightarrow> string" where
  "status_name ContentStatus_New = ''New''"
| "status_name ContentStatus_Processing = ''Processing''"
| "status_name ContentStatus_Available = ''Available''"
| "status_name ContentStatus_Failed = ''Failed''"
| "status_name ContentStatus_Lost = ''Lost''"
| "status_name ContentStatus_Mapped = ''Mapped''"

definition subscript_ContentStatus :: "ContentStatus \<Rightarrow> string \<Rightarrow> error + ContentStatus" where
  "subscript_ContentStatus x key = Inl TypeError"

text \<open>
  A content dictionary. \<^verbatim>\<open>get_input_contents\<close> builds it without \<^verbatim>\<open>content_id\<close>,
  \<^verbatim>\<open>status\<close> and \<^verbatim>\<open>substatus\<close>, which the registered contents carry; \<^verbatim>\<open>primary\<close>
  is a key of \<^verbatim>\<open>content_metadata\<close> that may be missing.
\<close>

record content_metadata =
  events :: int
  primary :: "bool option"

record content =
  content_id :: "int option"
  coll_id :: int
  scope :: string
  name :: string
  bytes :: int
  adler32 :: string
  min_id :: int
  max_id :: int
  content_type :: ContentType
  c_status :: "ContentStatus option"
  c_substatus :: "ContentStatus option"
  c_metadata :: content_metadata

record io_map =
  inputs :: "content list"
  outputs :: "content list"

record collection =
  col_scope :: string
  col_name :: string
  col_coll_id :: int
  col_status :: CollectionStatus

text \<open>
  A processing dictionary of the work: \<^verbatim>\<open>create_processing\<close> builds it with the
  metadata only; \<^verbatim>\<open>processing_id\<close> is there once the processing is stored. In the
  metadata \<^verbatim>\<open>rule_id\<close> is a key that may be missing (\<open>None\<close>) or present with the value
  \<^verbatim>\<open>None\<close> (\<open>Some None\<close>) or a rule id.
\<close>

record proc_metadata =
  internal_id :: string
  m_src_rse :: "string option"
  m_dest_rse :: "string option"
  m_life_time :: int
  m_rule_id :: "string option option"

record proc =
  proc_processing_id :: "int option"
  metadata :: proc_metadata

text \<open>
  The work. The base class \<^verbatim>\<open>Work\<close> is not among the sources.
  Modelled from the spec: \<open>collections\<close> and \<open>processings\<close> are dictionaries keyed by an
  internal id (a string, as the \<^verbatim>\<open>internal_id\<close> of a processing is);
  \<open>primary_input_collection\<close> and \<open>output_collections\<close> hold such keys;
  \<^verbatim>\<open>has_new_inputs()\<close> and \<^verbatim>\<open>set_has_new_inputs(v)\<close> read and write a flag;
  \<^verbatim>\<open>add_processing_to_processings(proc)\<close> stores the processing under its
  \<^verbatim>\<open>internal_id\<close>.
  The constructor of the stage-in work assigns \<^verbatim>\<open>self.life_time\<close>, and
  \<^verbatim>\<open>create_rule\<close> reads \<^verbatim>\<open>self.lifetime\<close>: \<open>lifetime\<close> is that second attribute,
  \<open>None\<close> when the base class does not define it (reading it raises
  \<^verbatim>\<open>AttributeError\<close>).
\<close>

record work =
  collections :: "(string \<times> collection) list"
  primary_input_collection :: string
  output_collections :: "string list"
  processings :: "(string \<times> proc) list"
  active_processings :: "string list"
  has_new_inputs :: bool
  w_status :: WorkStatus
  status_statistics :: "(string \<times> nat) list"
  src_rse :: "string option"
  dest_rse :: "string option"
  life_time :: int
  lifetime :: "int option"
  rule_id :: "string option"

subsection \<open>The DataService\<close>

text \<open>
  The client of the replication service is external. Its answers are parameters:
  whether a client can be made, the account, the files of each DID, what
  \<^verbatim>\<open>add_replication_rule\<close> does, the rules \<^verbatim>\<open>list_did_rules\<close> lists for each DID, and
  the rules by id with their replica locks. \<open>rule_requests\<close> logs the calls of
  \<^verbatim>\<open>add_replication_rule\<close>.
\<close>

record rucio_file =
  f_scope :: string
  f_name :: string
  f_bytes :: int
  f_adler32 :: string
  f_events :: int

datatype add_rule_outcome =
    Returns_id string | Returns_ids "string list" | Raises_DuplicateRule | Raises_other

record did_rule =
  r_id :: string
  r_account :: string
  r_rse_expression :: string

record replica_lock =
  l_scope :: string
  l_name :: string
  l_state :: string

record replication_rule =
  state :: string
  locks_ok_cnt :: int
  locks :: "replica_lock list"

record rule_request =
  q_scope :: string
  q_name :: string
  q_rse_expression :: "string option"
  q_source_replica_expression :: "string option"
  q_lifetime :: int

record data_service =
  authenticates :: bool
  account :: string
  files :: "((string \<times> string) \<times> rucio_file list) list"
  add_replication_rule_outcome :: add_rule_outcome
  did_rules :: "((string \<times> string) \<times> did_rule list) list"
  rules :: "(string \<times> replication_rule) list"
  rule_requests :: "rule_request list"

text \<open>\<^verbatim>\<open>get_rucio_client()\<close>: \<^verbatim>\<open>CannotAuthenticate\<close> becomes \<^verbatim>\<open>IDDSException\<close>.\<close>

definition get_rucio_client :: "data_service \<Rightarrow> error + data_service" where
  "get_rucio_client ds = (if authenticates ds then Inr ds else Inl IDDSException)"

subsection \<open>Mapping inputs to outputs\<close>

text \<open>
  \<^verbatim>\<open>get_input_contents()\<close>: the files of the primary input collection as content
  dictionaries. Whatever is raised inside becomes \<^verbatim>\<open>IDDSException\<close>.
\<close>

definition file_content :: "collection \<Rightarrow> rucio_file \<Rightarrow> content" where
  "file_content coll file =
     \<lparr>content_id = None, coll_id = col_coll_id coll, scope = f_scope file, name = f_name file,
      bytes = f_bytes file, adler32 = f_adler32 file, min_id = 0, max_id = f_events file,
      content_type = ContentType_File, c_status = None, c_substatus = None,
      c_metadata = \<lparr>events = f_events file, primary = None\<rparr>\<rparr>"

definition get_input_contents :: "work \<Rightarrow> data_service \<Rightarrow> error + content list" where
  "get_input_contents w ds =
     (case then_do (get_rucio_client ds) (\<lambda>rucio_client.
             then_do (dict_get (collections w) (primary_input_collection w)) (\<lambda>coll.
             then_do (dict_get (files rucio_client) (col_scope coll, col_name coll)) (\<lambda>files'.
               Inr (map (file_content coll) files'))))
      of Inl ex \<Rightarrow> Inl IDDSException
       | Inr ret_files \<Rightarrow> Inr ret_files)"

text \<open>
  \<^verbatim>\<open>get_mapped_inputs(mapped_input_output_maps)\<close>: of every map the primary input, which is
  the first input unless inputs are flagged \<^verbatim>\<open>primary\<close>, and then the last one flagged.
\<close>

definition is_primary :: "content \<Rightarrow> bool" where
  "is_primary ip = (primary (c_metadata ip) = Some True)"

fun get_mapped_inputs :: "('k \<times> io_map) list \<Rightarrow> error + content list" where
  "get_mapped_inputs [] = Inr []"
| "get_mapped_inputs ((map_id, m) # rest) =
     then_do (first_item (inputs m)) (\<lambda>primary_input.
       let primary_input = fold (\<lambda>ip p. if is_primary ip then ip else p) (inputs m) primary_input
       in then_do (get_mapped_inputs rest) (\<lambda>ret. Inr (primary_input # ret)))"

definition scope_name :: "content \<Rightarrow> string" where
  "scope_name ip = scope ip @ '':'' @ name ip"

text \<open>\<^verbatim>\<open>max(mapped_keys)\<close> of a list of keys that is not empty.\<close>

fun py_max :: "int list \<Rightarrow> int" where
  "py_max [] = 0"
| "py_max (k # ks) = fold max ks k"

text \<open>The loop that gives every new input a map under the next key.\<close>

fun add_new_maps :: "work \<Rightarrow> int \<Rightarrow> content list \<Rightarrow> error + (int \<times> io_map) list" where
  "add_new_maps w next_key [] = Inr []"
| "add_new_maps w next_key (ip # ips) =
     then_do (first_item (output_collections w)) (\<lambda>out_coll.
     then_do (dict_get (collections w) out_coll) (\<lambda>coll.
       let out_ip = ip\<lparr>coll_id := col_coll_id coll\<rparr>
       in then_do (add_new_maps w (next_key + 1) ips) (\<lambda>new_input_output_maps.
            Inr ((next_key, \<lparr>inputs = [ip], outputs = [out_ip]\<rparr>) # new_input_output_maps))))"

text \<open>
  \<^verbatim>\<open>get_new_input_output_maps(mapped_input_output_maps)\<close>: the new maps and the work
  (whose flag \<open>has_new_inputs\<close> may have been cleared). The status of the primary input
  collection is read only when there are no new inputs (\<^verbatim>\<open>and\<close> is short-circuit).
\<close>

definition get_new_input_output_maps ::
  "work \<Rightarrow> data_service \<Rightarrow> (int \<times> io_map) list \<Rightarrow> error + ((int \<times> io_map) list \<times> work)" where
  "get_new_input_output_maps w ds mapped_input_output_maps =
     then_do (get_input_contents w ds) (\<lambda>inputs'.
     then_do (get_mapped_inputs mapped_input_output_maps) (\<lambda>mapped_inputs.
       let mapped_inputs_scope_name = map scope_name mapped_inputs;
           new_inputs = filter (\<lambda>ip. scope_name ip \<notin> set mapped_inputs_scope_name) inputs';
           otherwise =
             (let mapped_keys = map fst mapped_input_output_maps;
                  next_key = (if mapped_keys \<noteq> [] then py_max mapped_keys + 1 else 1)
              in then_do (add_new_maps w next_key new_inputs) (\<lambda>new_input_output_maps.
                   Inr (new_input_output_maps, w)))
       in if new_inputs = []
          then then_do (dict_get (collections w) (primary_input_collection w)) (\<lambda>coll.
                 if col_status coll \<in> set [CollectionStatus_Closed]
                 then Inr ([], w\<lparr>has_new_inputs := False\<rparr>)
                 else otherwise)
          else otherwise))"

subsection \<open>Processings and rules\<close>

text \<open>
  \<^verbatim>\<open>create_processing(input_output_maps)\<close> of the work; \<open>uuid\<close> is the fresh
  \<^verbatim>\<open>str(uuid.uuid1())\<close>. The metadata always gets the key \<^verbatim>\<open>rule_id\<close>, with the value
  of \<^verbatim>\<open>self.rule_id\<close>.
\<close>

definition create_processing_work :: "work \<Rightarrow> string \<Rightarrow> work" where
  "create_processing_work w uuid =
     (let proc = \<lparr>proc_processing_id = None,
                  metadata = \<lparr>internal_id = uuid, m_src_rse = src_rse w, m_dest_rse = dest_rse w,
                              m_life_time = life_time w, m_rule_id = Some (rule_id w)\<rparr>\<rparr>
      in w\<lparr>processings := AList.update (internal_id (metadata proc)) proc (processings w),
            active_processings := active_processings w @ [internal_id (metadata proc)]\<rparr>)"

text \<open>
  \<^verbatim>\<open>create_rule()\<close>: what it returns or raises, and the service with its log.
  Inside \<^verbatim>\<open>try\<close>, every exception but \<^verbatim>\<open>DuplicateRule\<close> is logged and \<^verbatim>\<open>None\<close> is
  returned. The handler of \<^verbatim>\<open>DuplicateRule\<close> subscripts \<^verbatim>\<open>self.primary_input_collection\<close>
  itself, the key, not the collection; what it raises is not caught by the handler
  that follows.
\<close>

definition list_did_rules :: "data_service \<Rightarrow> string \<Rightarrow> string \<Rightarrow> did_rule list" where
  "list_did_rules ds scope' name' =
     (case map_of (did_rules ds) (scope', name') of None \<Rightarrow> [] | Some rules' \<Rightarrow> rules')"

definition adopt_rule :: "did_rule list \<Rightarrow> string \<Rightarrow> string option \<Rightarrow> string option" where
  "adopt_rule rules' account' dest =
     (case filter (\<lambda>rule. r_account rule = account' \<and> Some (r_rse_expression rule) = dest) rules' of
        [] \<Rightarrow> None
      | rule # _ \<Rightarrow> Some (r_id rule))"

definition create_rule :: "work \<Rightarrow> data_service \<Rightarrow> (error + string option) \<times> data_service" where
  "create_rule w ds =
     (case get_rucio_client ds of
        Inl ex \<Rightarrow> (Inr None, ds)
      | Inr rucio_client \<Rightarrow>
     (case dict_get (collections w) (primary_input_collection w) of
        Inl ex \<Rightarrow> (Inr None, ds)
      | Inr coll \<Rightarrow>
     (case lifetime w of
        None \<Rightarrow> (Inr None, ds)
      | Some lifetime' \<Rightarrow>
         (let ds' = ds\<lparr>rule_requests := rule_requests ds @
                      [\<lparr>q_scope = col_scope coll, q_name = col_name coll,
                        q_rse_expression = dest_rse w,
                        q_source_replica_expression = src_rse w, q_lifetime = lifetime'\<rparr>]\<rparr>
          in case add_replication_rule_outcome ds of
               Returns_id rule_id' \<Rightarrow> (Inr (Some rule_id'), ds')
             | Returns_ids rule_ids \<Rightarrow>
                 (case rule_ids of [] \<Rightarrow> (Inr None, ds') | rule_id' # _ \<Rightarrow> (Inr (Some rule_id'), ds'))
             | Raises_DuplicateRule \<Rightarrow>
                 (then_do (subscript_str (primary_input_collection w) ''scope'') (\<lambda>scope'.
                  then_do (subscript_str (primary_input_collection w) ''name'') (\<lambda>name'.
                    Inr (adopt_rule (list_did_rules rucio_client scope' name')
                           (account rucio_client) (dest_rse w)))), ds')
             | Raises_other \<Rightarrow> (Inr None, ds')))))"

text \<open>
  \<^verbatim>\<open>submit_processing()\<close>: the active processing is changed in place, that is, in the
  dictionary of processings. The test is \<^verbatim>\<open>'rule_id' in p['processing_metadata']\<close>:
  whether the key is there, whatever its value.
\<close>

definition submit_processing :: "work \<Rightarrow> data_service \<Rightarrow> (error + work) \<times> data_service" where
  "submit_processing w ds =
     (case active_processings w of
        [] \<Rightarrow> (Inr w, ds)
      | active # _ \<Rightarrow>
          (case dict_get (processings w) active of
             Inl ex \<Rightarrow> (Inl ex, ds)
           | Inr p \<Rightarrow>
               (case m_rule_id (metadata p) of
                  Some present \<Rightarrow> (Inr w, ds)
                | None \<Rightarrow>
                    (case create_rule w ds of
                       (Inl ex, ds') \<Rightarrow> (Inl ex, ds')
                     | (Inr rule_id', ds') \<Rightarrow>
                         (Inr (w\<lparr>processings :=
                                  AList.update active
                                    (p\<lparr>metadata := (metadata p)\<lparr>m_rule_id := Some rule_id'\<rparr>\<rparr>)
                                    (processings w)\<rparr>), ds')))))"

subsection \<open>Polling\<close>

text \<open>
  \<^verbatim>\<open>poll_rule()\<close>: the active processing, the state of its rule, and the status of the
  replicas, a dictionary from \<^verbatim>\<open>"scope:name"\<close> to a member of \<^verbatim>\<open>ContentStatus\<close>.
  \<^verbatim>\<open>RuleNotFound\<close> becomes \<^verbatim>\<open>ProcessNotFound\<close>; a rule id \<^verbatim>\<open>None\<close> names no rule.
\<close>

definition get_replication_rule :: "data_service \<Rightarrow> string option \<Rightarrow> error + replication_rule" where
  "get_replication_rule ds rule_id' =
     (case rule_id' of
        None \<Rightarrow> Inl ProcessNotFound
      | Some r \<Rightarrow> (case map_of (rules ds) r of None \<Rightarrow> Inl ProcessNotFound | Some rule \<Rightarrow> Inr rule))"

definition record_lock ::
  "replica_lock \<Rightarrow> (string \<times> ContentStatus) list \<Rightarrow> (string \<times> ContentStatus) list" where
  "record_lock lock replicases_status =
     (let scope_name' = l_scope lock @ '':'' @ l_name lock
      in if l_state lock = ''OK''
         then AList.update scope_name' ContentStatus_Available replicases_status
         else replicases_status)"

definition poll_rule ::
  "work \<Rightarrow> data_service \<Rightarrow> error + (proc \<times> string \<times> (string \<times> ContentStatus) list)" where
  "poll_rule w ds =
     then_do (first_item (active_processings w)) (\<lambda>active.
     then_do (dict_get (processings w) active) (\<lambda>p.
     then_do (field_get (m_rule_id (metadata p))) (\<lambda>rule_id'.
     then_do (get_rucio_client ds) (\<lambda>rucio_client.
     then_do (get_replication_rule rucio_client rule_id') (\<lambda>rule.
       let replicases_status =
             (if locks_ok_cnt rule > 0 then fold record_lock (locks rule) [] else [])
       in Inr (p, state rule, replicases_status))))))"

definition poll_processing ::
  "work \<Rightarrow> data_service \<Rightarrow> error + (proc \<times> string \<times> (string \<times> ContentStatus) list)" where
  "poll_processing w ds = poll_rule w ds"

text \<open>
  \<^verbatim>\<open>poll_processing_updates(input_output_maps)\<close>. The body of the inner loop, on one
  output content: the content (changed in place), the deltas and the two counters.
  Where the key of the content is in \<open>rep_status\<close>, the value found there, a member of
  \<^verbatim>\<open>ContentStatus\<close>, is subscripted with \<^verbatim>\<open>'substatus'\<close>.
\<close>

record updated_content =
  u_content_id :: int
  u_substatus :: ContentStatus

record poll_state =
  updated_contents :: "updated_content list"
  finished :: nat
  unfinished :: nat

definition poll_content ::
  "(string \<times> ContentStatus) list \<Rightarrow> content \<Rightarrow> poll_state \<Rightarrow> error + (content \<times> poll_state)" where
  "poll_content rep_status content' acc =
     (let key = scope content' @ '':'' @ name content'
      in then_do
           (case map_of rep_status key of
              None \<Rightarrow> Inr (content', acc)
            | Some found \<Rightarrow>
                then_do (field_get (c_substatus content')) (\<lambda>current.
                then_do (subscript_ContentStatus found ''substatus'') (\<lambda>new.
                  if current \<noteq> new
                  then then_do (field_get (content_id content')) (\<lambda>cid.
                       then_do (subscript_ContentStatus found ''substatus'') (\<lambda>new.
                       then_do (subscript_ContentStatus found ''substatus'') (\<lambda>new'.
                         Inr (content'\<lparr>c_substatus := Some new'\<rparr>,
                              acc\<lparr>updated_contents := updated_contents acc @
                                    [\<lparr>u_content_id = cid, u_substatus = new\<rparr>]\<rparr>))))
                  else Inr (content', acc))))
           (\<lambda>(content', acc).
              then_do (field_get (c_substatus content')) (\<lambda>current.
                if current = ContentStatus_Available
                then Inr (content', acc\<lparr>finished := finished acc + 1\<rparr>)
                else Inr (content', acc\<lparr>unfinished := unfinished acc + 1\<rparr>))))"

text \<open>
  The inner iteration runs over the outputs of a map, the outer one over the maps; only
  the counters and the deltas are kept.
\<close>

definition poll_outputs ::
  "(string \<times> ContentStatus) list \<Rightarrow> content list \<Rightarrow> poll_state \<Rightarrow> error + poll_state" where
  "poll_outputs rep_status outputs' acc =
     for_each (\<lambda>content' acc. then_do (poll_content rep_status content' acc) (\<lambda>(c, acc). Inr acc))
       outputs' acc"

definition poll_processing_updates ::
  "work \<Rightarrow> data_service \<Rightarrow> ('k \<times> io_map) list \<Rightarrow>
   error + ((int \<times> ProcessingStatus) option \<times> updated_content list)" where
  "poll_processing_updates w ds input_output_maps =
     then_do (poll_processing w ds) (\<lambda>(processing, rule_state, rep_status).
     then_do (for_each (\<lambda>(map_id, m) acc. poll_outputs rep_status (outputs m) acc)
                input_output_maps \<lparr>updated_contents = [], finished = 0, unfinished = 0\<rparr>)
       (\<lambda>content_substatus.
          if rule_state = ''OK'' \<and> finished content_substatus > 0
               \<and> unfinished content_substatus = 0
          then then_do (field_get (proc_processing_id processing)) (\<lambda>pid.
                 Inr (Some (pid, ProcessingStatus_Finished), updated_contents content_substatus))
          else Inr (None, updated_contents content_substatus)))"

subsection \<open>Rollup of the work status\<close>

text \<open>
  A key of a map table: the tables are keyed by integers, and
  \<^verbatim>\<open>get_status_statistics\<close> looks the string \<^verbatim>\<open>'map_id'\<close> up in one.
\<close>

datatype py_key = Int_key int | Str_key string

definition count_status :: "content \<Rightarrow> (string \<times> nat) list \<Rightarrow> error + (string \<times> nat) list" where
  "count_status content' status_statistics' =
     then_do (field_get (c_status content')) (\<lambda>st.
       let status_statistics' =
             (if status_name st \<notin> set (map fst status_statistics')
              then AList.update (status_name st) 0 status_statistics'
              else status_statistics')
       in then_do (dict_get status_statistics' (status_name st)) (\<lambda>n.
            Inr (AList.update (status_name st) (n + 1) status_statistics')))"

text \<open>
  \<^verbatim>\<open>get_status_statistics(registered_input_output_maps)\<close>: in the loop over the keys,
  the outputs are read from \<^verbatim>\<open>registered_input_output_maps['map_id']\<close>, under the
  string and not under the loop variable.
\<close>

definition get_status_statistics ::
  "work \<Rightarrow> (py_key \<times> io_map) list \<Rightarrow> error + ((string \<times> nat) list \<times> work)" where
  "get_status_statistics w registered_input_output_maps =
     then_do (for_each (\<lambda>(map_id, m) status_statistics'.
                 then_do (dict_get registered_input_output_maps (Str_key ''map_id'')) (\<lambda>m'.
                   for_each count_status (outputs m') status_statistics'))
               registered_input_output_maps [])
       (\<lambda>status_statistics'.
          Inr (status_statistics', w\<lparr>status_statistics := status_statistics'\<rparr>))"

text \<open>\<^verbatim>\<open>syn_work_status(registered_input_output_maps)\<close>.\<close>

definition syn_work_status :: "work \<Rightarrow> (py_key \<times> io_map) list \<Rightarrow> error + work" where
  "syn_work_status w registered_input_output_maps =
     then_do (get_status_statistics w registered_input_output_maps) (\<lambda>(ret, w).
       if active_processings w = [] \<and> \<not> has_new_inputs w
       then (let keys = map fst (status_statistics w)
             in if status_name ContentStatus_New \<in> set keys
                     \<or> status_name ContentStatus_Processing \<in> set keys
                then Inr w
                else if length keys = 1
                     then (if status_name ContentStatus_Available \<in> set keys
                           then Inr (w\<lparr>w_status := WorkStatus_Finished\<rparr>)
                           else Inr (w\<lparr>w_status := WorkStatus_Failed\<rparr>))
                     else Inr (w\<lparr>w_status := WorkStatus_SubFinished\<rparr>))
       else Inr w)"

section \<open>Due work, as specified\<close>

text \<open>
  The predicate of section 4.2 in the spec's words: the status is among those asked
  for, \<^verbatim>\<open>next_poll_at\<close> is before now, the row is idle when the locking filter is on,
  and \<^verbatim>\<open>updated_at\<close> is older than now minus the period when there is one.
  \<open>requested\<close> is the set of statuses asked for; \<open>effective\<close> is a period or a bulk
  size as the queries take it, where \<^verbatim>\<open>0\<close> counts as not given.
\<close>

definition requested :: "'s status_selection \<Rightarrow> 's set" where
  "requested sel = (case sel of One_status s \<Rightarrow> {s} | Status_list ss \<Rightarrow> set ss)"

definition effective :: "'a::zero option \<Rightarrow> 'a option" where
  "effective v = (case v of None \<Rightarrow> None | Some x \<Rightarrow> if x = 0 then None else Some x)"

definition due_transform ::
  "timestamp \<Rightarrow> timestamp \<Rightarrow> TransformStatus set \<Rightarrow> int option \<Rightarrow> bool \<Rightarrow> transform \<Rightarrow> bool" where
  "due_transform now1 now2 statuses period lock r =
     (t_status r \<in> statuses \<and> t_next_poll_at r < now1
      \<and> (lock \<longrightarrow> t_locking r = TransformLocking_Idle)
      \<and> (case period of None \<Rightarrow> True | Some p \<Rightarrow> t_updated_at r < now2 - p))"

definition due_processing ::
  "timestamp \<Rightarrow> timestamp \<Rightarrow> ProcessingStatus set \<Rightarrow> int option \<Rightarrow> bool \<Rightarrow> processing \<Rightarrow> bool" where
  "due_processing now1 now2 statuses period lock r =
     (status r \<in> statuses \<and> next_poll_at r < now1
      \<and> (lock \<longrightarrow> locking r = ProcessingLocking_Idle)
      \<and> (case period of None \<Rightarrow> True | Some p \<Rightarrow> updated_at r < now2 - p))"

section \<open>New inputs, as specified\<close>

text \<open>
  Section 4.3.1 in the spec's words: the primary input of a map is its first input, or
  an input flagged \<^verbatim>\<open>primary\<close> (the last one flagged, when several are);
  \<open>mapped_scope_name\<close> is the set of \<^verbatim>\<open>"scope:name"\<close> of the primary inputs of a table;
  the map of a new file has the file as its only input and, as its only output, a copy
  of the file in the output collection.
\<close>

definition primary_input :: "io_map \<Rightarrow> content" where
  "primary_input m =
     (case filter is_primary (inputs m) of [] \<Rightarrow> hd (inputs m) | ip # ips \<Rightarrow> last (ip # ips))"

definition mapped_scope_name :: "('k \<times> io_map) list \<Rightarrow> string set" where
  "mapped_scope_name maps = scope_name ` primary_input ` snd ` set maps"

definition new_map :: "int \<Rightarrow> content \<Rightarrow> io_map" where
  "new_map out_coll_id file = \<lparr>inputs = [file], outputs = [file\<lparr>coll_id := out_coll_id\<rparr>]\<rparr>"

section \<open>Example data\<close>

definition example_processing :: processing where
  "example_processing =
     \<lparr>transform_id = 7, status = ProcessingStatus_New, substatus = ProcessingStatus_New,
      locking = ProcessingLocking_Idle, submitter = None, granularity = None,
      granularity_type = GranularityType_File, expired_at = None, processing_metadata = None,
      output_metadata = None, processing_id = 1, created_at = 10, updated_at = 40,
      next_poll_at = 50, finished_at = None\<rparr>"

definition example_transform :: transform where
  "example_transform =
     \<lparr>t_transform_id = 7, transform_type = ''StageIn'', transform_tag = None, priority = 0,
      t_status = TransformStatus_New, t_substatus = TransformStatus_New,
      t_locking = TransformLocking_Idle, retries = 0, t_created_at = 10, t_updated_at = 40,
      t_next_poll_at = 50, t_finished_at = None, t_expired_at = None,
      transform_metadata = None\<rparr>"

definition no_processing_parameters :: processing_parameters where
  "no_processing_parameters =
     \<lparr>p_processing_id = None, p_transform_id = None, p_status = None, p_substatus = None,
      p_locking = None, p_submitter = None, p_granularity = None, p_granularity_type = None,
      p_created_at = None, p_updated_at = None, p_next_poll_at = None, p_finished_at = None,
      p_expired_at = None, p_processing_metadata = None, p_output_metadata = None\<rparr>"

definition no_transform_parameters :: transform_parameters where
  "no_transform_parameters =
     \<lparr>p_t_transform_id = None, p_transform_type = None, p_transform_tag = None,
      p_priority = None, p_t_status = None, p_t_substatus = None, p_t_locking = None,
      p_retries = None, p_t_created_at = None, p_t_updated_at = None,
      p_t_next_poll_at = None, p_t_finished_at = None, p_t_expired_at = None,
      p_transform_metadata = None\<rparr>"

definition example_work :: work where
  "example_work =
     \<lparr>collections = [(''in'', \<lparr>col_scope = ''u'', col_name = ''ds1'', col_coll_id = 1,
                                 col_status = CollectionStatus_Open\<rparr>),
                      (''out'', \<lparr>col_scope = ''u'', col_name = ''ds1.out'', col_coll_id = 2,
                                  col_status = CollectionStatus_Open\<rparr>)],
      primary_input_collection = ''in'',
      output_collections = [''out''],
      processings = [],
      active_processings = [],
      has_new_inputs = True,
      w_status = WorkStatus_Transforming,
      status_statistics = [],
      src_rse = Some ''SRC'',
      dest_rse = Some ''DST'',
      life_time = 604800,
      lifetime = Some 604800,
      rule_id = None\<rparr>"

definition example_service :: data_service where
  "example_service =
     \<lparr>authenticates = True,
      account = ''self'',
      files = [((''u'', ''ds1''),
                [\<lparr>f_scope = ''u'', f_name = ''f1'', f_bytes = 10, f_adler32 = ''a1'', f_events = 5\<rparr>,
                 \<lparr>f_scope = ''u'', f_name = ''f2'', f_bytes = 20, f_adler32 = ''a2'', f_events = 6\<rparr>])],
      add_replication_rule_outcome = Returns_id ''R'',
      did_rules = [((''u'', ''ds1''),
                    [\<lparr>r_id = ''R0'', r_account = ''self'', r_rse_expression = ''DST''\<rparr>])],
      rules = [(''R'', \<lparr>state = ''OK'', locks_ok_cnt = 1,
                         locks = [\<lparr>l_scope = ''u'', l_name = ''f1'', l_state = ''OK''\<rparr>]\<rparr>)],
      rule_requests = []\<rparr>"

definition example_output :: content where
  "example_output =
     \<lparr>content_id = Some 11, coll_id = 2, scope = ''u'', name = ''f1'', bytes = 10,
      adler32 = ''a1'', min_id = 0, max_id = 5, content_type = ContentType_File,
      c_status = Some ContentStatus_New, c_substatus = Some ContentStatus_New,
      c_metadata = \<lparr>events = 5, primary = None\<rparr>\<rparr>"

definition example_input :: "string \<Rightarrow> content" where
  "example_input file_name =
     \<lparr>content_id = None, coll_id = 1, scope = ''u'', name = file_name, bytes = 10,
      adler32 = ''a1'', min_id = 0, max_id = 5, content_type = ContentType_File,
      c_status = None, c_substatus = None,
      c_metadata = \<lparr>events = 5, primary = None\<rparr>\<rparr>"

section \<open>Single-row lookups\<close>

text \<open>
  C8. A lookup of an id that no row carries does not raise \<^verbatim>\<open>NoObject\<close>: on the empty
  table \<^verbatim>\<open>get_processing(1)\<close> and \<^verbatim>\<open>get_transform(1)\<close> both return \<^verbatim>\<open>None\<close>, a value
  that is not an error, whichever rendering is asked for.
\<close>

theorem get_missing_row_returns_None:
  "get_processing [] 1 to_json = Inr None \<and> get_transform [] 1 to_json = Inr None"
  by (simp add: get_processing_def get_transform_def)

section \<open>Adding a processing and reading it back\<close>

lemma fold_max_ge: "a \<le> fold max ids (a::int) \<and> (\<forall>x \<in> set ids. x \<le> fold max ids a)"
proof (induction ids arbitrary: a)
  case Nil
  then show ?case by simp
next
  case (Cons i ids)
  have "max i a \<le> fold max ids (max i a)" and "\<forall>x \<in> set ids. x \<le> fold max ids (max i a)"
    using Cons.IH [of "max i a"] by simp_all
  then show ?case by auto
qed

lemma next_id_fresh: "next_id ids \<notin> set ids"
proof
  assume "next_id ids \<in> set ids"
  then have "next_id ids \<le> fold max ids 0" using fold_max_ge [of 0 ids] by blast
  then show False by (simp add: next_id_def)
qed

lemma filter_fresh_row:
  assumes "processing_id row \<notin> processing_id ` set tbl"
  shows "filter (\<lambda>r. processing_id r = processing_id row) (tbl @ [row]) = [row]"
proof -
  have "filter (\<lambda>r. processing_id r = processing_id row) tbl = []"
    using assms by (metis (mono_tags, lifting) filter_False image_eqI)
  then show ?thesis by simp
qed

lemma processing_id_save:
  "processing_id (save_processing tbl now c) = next_id (map processing_id tbl)"
  by (simp add: save_processing_def processing_columns.extend_def processing.fields_def)

lemma columns_of_save:
  "processing_columns.truncate (save_processing tbl now c) = c"
  by (simp add: save_processing_def processing_columns.extend_def processing.fields_def
      processing_columns.truncate_def)

text \<open>
  C9. Round trip: when the store accepts the insert, \<^verbatim>\<open>add_processing\<close> returns an id
  under which \<^verbatim>\<open>get_processing\<close> finds a row, and that row has the columns of the record
  that was added: \<^verbatim>\<open>transform_id\<close>, \<^verbatim>\<open>status\<close>, \<^verbatim>\<open>locking\<close>, \<^verbatim>\<open>submitter\<close>,
  \<^verbatim>\<open>granularity\<close>, \<^verbatim>\<open>granularity_type\<close>, \<^verbatim>\<open>expired_at\<close>, \<^verbatim>\<open>processing_metadata\<close> and
  \<^verbatim>\<open>output_metadata\<close> as given, and \<^verbatim>\<open>substatus\<close> as \<^verbatim>\<open>create_processing\<close> set it
  (\<^verbatim>\<open>New\<close>: \<^verbatim>\<open>add_processing\<close> takes no substatus). The timestamps are left open.
\<close>

theorem add_get_processing_roundtrip:
  "\<exists>tbl' pid r.
     add_processing tbl now Saved tid st lk sub g gt ex pm om = Inr (tbl', pid) \<and>
     get_processing tbl' pid to_json = Inr (Some (render to_json r)) \<and>
     processing_id r = pid \<and>
     processing_columns.truncate r =
       create_processing tid st lk sub g gt ex pm ProcessingStatus_New om \<and>
     transform_id r = tid \<and> status r = st \<and> substatus r = ProcessingStatus_New \<and>
     locking r = lk \<and> submitter r = sub \<and> granularity r = g \<and> granularity_type r = gt \<and>
     expired_at r = ex \<and> processing_metadata r = pm \<and> output_metadata r = om"
proof -
  define c where "c = create_processing tid st lk sub g gt ex pm ProcessingStatus_New om"
  define row where "row = save_processing tbl now c"
  have fresh: "processing_id row \<notin> processing_id ` set tbl"
    using next_id_fresh [of "map processing_id tbl"] by (simp add: row_def processing_id_save)
  have add: "add_processing tbl now Saved tid st lk sub g gt ex pm om
               = Inr (tbl @ [row], processing_id row)"
    by (simp add: add_processing_def c_def row_def Let_def)
  have get: "get_processing (tbl @ [row]) (processing_id row) to_json
               = Inr (Some (render to_json row))"
    using filter_fresh_row [OF fresh] by (simp add: get_processing_def)
  have cols: "processing_columns.truncate row = c"
    by (simp add: row_def columns_of_save)
  have fields: "transform_id row = tid \<and> status row = st \<and> substatus row = ProcessingStatus_New \<and>
     locking row = lk \<and> submitter row = sub \<and> granularity row = g \<and> granularity_type row = gt \<and>
     expired_at row = ex \<and> processing_metadata row = pm \<and> output_metadata row = om"
    by (simp add: row_def c_def save_processing_def create_processing_def
        processing_columns.extend_def processing.fields_def)
  show ?thesis using add get cols fields unfolding c_def by blast
qed

section \<open>Updates stamp the row\<close>

text \<open>
  What the two updates do to every row, for every parameter dictionary: the selected rows
  get \<^verbatim>\<open>updated_at\<close> and, when the status passes the function's test, \<^verbatim>\<open>finished_at\<close>;
  every other column has the value the parameters name and is unchanged when they name
  none; the other rows are unchanged.
\<close>

lemma update_processing_eq:
  "update_processing tbl now1 now2 pid ps =
     (let ps' = ps\<lparr>p_updated_at := Some now1,
                   p_finished_at := (if p_status ps \<in> {Some (Member ProcessingStatus_Finished),
                       Some (Member ProcessingStatus_Failed), Some (Member ProcessingStatus_Lost)}
                     then Some (Some now2) else p_finished_at ps)\<rparr>
      in (map (\<lambda>r. if processing_id r = pid then update_processing_row ps' r else r) tbl, ps'))"
  by (cases "p_status ps") (auto simp: update_processing_def Let_def)

lemma update_transform_eq:
  "update_transform tbl now1 now2 tid ps =
     (let ps' = ps\<lparr>p_t_updated_at := Some now1,
                   p_t_finished_at := (if map_option stored_status (p_t_status ps) \<in>
                       {Some TransformStatus_Finished, Some TransformStatus_Failed}
                     then Some (Some now2) else p_t_finished_at ps)\<rparr>
      in (map (\<lambda>r. if t_transform_id r = tid then update_transform_row ps' r else r) tbl, ps'))"
proof (cases "p_t_status ps")
  case None
  then show ?thesis by (simp add: update_transform_def Let_def)
next
  case (Some v)
  then show ?thesis
    by (cases v) (auto simp: update_transform_def Let_def)
qed

lemma update_processing_rows:
  "list_all2 (\<lambda>r r'.
      if processing_id r = pid
      then updated_at r' = now1 \<and>
           finished_at r' =
             (if p_status ps \<in> {Some (Member ProcessingStatus_Finished),
                                 Some (Member ProcessingStatus_Failed),
                                 Some (Member ProcessingStatus_Lost)}
              then Some now2
              else (case p_finished_at ps of None \<Rightarrow> finished_at r | Some v \<Rightarrow> v)) \<and>
           processing_id r' = (case p_processing_id ps of None \<Rightarrow> processing_id r | Some v \<Rightarrow> v) \<and>
           transform_id r' = (case p_transform_id ps of None \<Rightarrow> transform_id r | Some v \<Rightarrow> v) \<and>
           status r' = (case p_status ps of None \<Rightarrow> status r | Some v \<Rightarrow> stored_status v) \<and>
           substatus r' = (case p_substatus ps of None \<Rightarrow> substatus r | Some v \<Rightarrow> v) \<and>
           locking r' = (case p_locking ps of None \<Rightarrow> locking r | Some v \<Rightarrow> v) \<and>
           submitter r' = (case p_submitter ps of None \<Rightarrow> submitter r | Some v \<Rightarrow> v) \<and>
           granularity r' = (case p_granularity ps of None \<Rightarrow> granularity r | Some v \<Rightarrow> v) \<and>
           granularity_type r' =
             (case p_granularity_type ps of None \<Rightarrow> granularity_type r | Some v \<Rightarrow> v) \<and>
           created_at r' = (case p_created_at ps of None \<Rightarrow> created_at r | Some v \<Rightarrow> v) \<and>
           next_poll_at r' = (case p_next_poll_at ps of None \<Rightarrow> next_poll_at r | Some v \<Rightarrow> v) \<and>
           expired_at r' = (case p_expired_at ps of None \<Rightarrow> expired_at r | Some v \<Rightarrow> v) \<and>
           processing_metadata r' =
             (case p_processing_metadata ps of None \<Rightarrow> processing_metadata r | Some v \<Rightarrow> v) \<and>
           output_metadata r' =
             (case p_output_metadata ps of None \<Rightarrow> output_metadata r | Some v \<Rightarrow> v)
      else r' = r)
     tbl (fst (update_processing tbl now1 now2 pid ps))"
  unfolding update_processing_eq Let_def fst_conv list_all2_map2
  by (rule list_all2_refl)
    (auto simp: update_processing_row_def set_column_def split: option.splits)


lemma update_transform_rows:
  "list_all2 (\<lambda>r r'.
      if t_transform_id r = tid
      then t_updated_at r' = now1 \<and>
           t_finished_at r' =
             (if map_option stored_status (p_t_status ps)
                   \<in> {Some TransformStatus_Finished, Some TransformStatus_Failed}
              then Some now2
              else (case p_t_finished_at ps of None \<Rightarrow> t_finished_at r | Some v \<Rightarrow> v)) \<and>
           t_transform_id r' = (case p_t_transform_id ps of None \<Rightarrow> t_transform_id r | Some v \<Rightarrow> v) \<and>
           transform_type r' = (case p_transform_type ps of None \<Rightarrow> transform_type r | Some v \<Rightarrow> v) \<and>
           transform_tag r' = (case p_transform_tag ps of None \<Rightarrow> transform_tag r | Some v \<Rightarrow> v) \<and>
           priority r' = (case p_priority ps of None \<Rightarrow> priority r | Some v \<Rightarrow> v) \<and>
           t_status r' = (case p_t_status ps of None \<Rightarrow> t_status r | Some v \<Rightarrow> stored_status v) \<and>
           t_substatus r' = (case p_t_substatus ps of None \<Rightarrow> t_substatus r | Some v \<Rightarrow> v) \<and>
           t_locking r' = (case p_t_locking ps of None \<Rightarrow> t_locking r | Some v \<Rightarrow> v) \<and>
           retries r' = (case p_retries ps of None \<Rightarrow> retries r | Some v \<Rightarrow> v) \<and>
           t_created_at r' = (case p_t_created_at ps of None \<Rightarrow> t_created_at r | Some v \<Rightarrow> v) \<and>
           t_next_poll_at r' =
             (case p_t_next_poll_at ps of None \<Rightarrow> t_next_poll_at r | Some v \<Rightarrow> v) \<and>
           t_expired_at r' = (case p_t_expired_at ps of None \<Rightarrow> t_expired_at r | Some v \<Rightarrow> v) \<and>
           transform_metadata r' =
             (case p_transform_metadata ps of None \<Rightarrow> transform_metadata r | Some v \<Rightarrow> v)
      else r' = r)
     tbl (fst (update_transform tbl now1 now2 tid ps))"
  unfolding update_transform_eq Let_def fst_conv list_all2_map2
  by (rule list_all2_refl) (auto simp: update_transform_row_def set_column_def split: option.splits)

text \<open>
  C10 fails on the code for \<^verbatim>\<open>update_processing\<close>. Called with the status
  \<^verbatim>\<open>ProcessingStatus.Finished.value\<close>, it sets \<^verbatim>\<open>updated_at\<close> and the row's status
  becomes Finished, but \<^verbatim>\<open>finished_at\<close> is not stamped: the list it tests the status
  against holds the members only. With the member \<^verbatim>\<open>ProcessingStatus.Finished\<close> it
  stamps \<^verbatim>\<open>finished_at\<close>, and \<^verbatim>\<open>update_transform\<close>, whose list holds the members and
  their values, stamps it for \<^verbatim>\<open>TransformStatus.Finished.value\<close> too.
\<close>

theorem update_processing_value_not_stamped:
  "fst (update_processing [example_processing] 100 101 1
          (no_processing_parameters\<lparr>p_status := Some (Value ProcessingStatus_Finished)\<rparr>))
     = [example_processing\<lparr>status := ProcessingStatus_Finished, updated_at := 100\<rparr>]
   \<and> finished_at (example_processing\<lparr>status := ProcessingStatus_Finished, updated_at := 100\<rparr>)
       = None
   \<and> fst (update_processing [example_processing] 100 101 1
          (no_processing_parameters\<lparr>p_status := Some (Member ProcessingStatus_Finished)\<rparr>))
     = [example_processing\<lparr>status := ProcessingStatus_Finished, updated_at := 100,
                           finished_at := Some 101\<rparr>]
   \<and> fst (update_transform [example_transform] 100 101 7
          (no_transform_parameters\<lparr>p_t_status := Some (Value TransformStatus_Finished)\<rparr>))
     = [example_transform\<lparr>t_status := TransformStatus_Finished, t_updated_at := 100,
                          t_finished_at := Some 101\<rparr>]"
  by (simp add: update_processing_def update_transform_def update_processing_row_def
      update_transform_row_def set_column_def no_processing_parameters_def
      no_transform_parameters_def example_processing_def example_transform_def)

section \<open>The queries for due work\<close>

lemma set_status_list: "set (status_list sel) = requested sel"
proof (cases sel)
  case (One_status s)
  then show ?thesis by (simp add: status_list_def requested_def)
next
  case (Status_list ss)
  show ?thesis
  proof (cases "length ss = 1")
    case True
    then obtain s where "ss = [s]" by (cases ss) auto
    with Status_list show ?thesis by (simp add: status_list_def requested_def)
  next
    case False
    with Status_list show ?thesis by (simp add: status_list_def requested_def)
  qed
qed

lemma limit_props:
  fixes key :: "'r \<Rightarrow> 'k::linorder"
  assumes "rs = (case lim of None \<Rightarrow> sort_key key xs | Some n \<Rightarrow> take n (sort_key key xs))"
  shows "sorted (map key rs)"
    and "mset rs \<subseteq># mset xs"
    and "length rs = (case lim of None \<Rightarrow> length xs | Some n \<Rightarrow> min n (length xs))"
    and "\<forall>r \<in># mset xs - mset rs. \<forall>r' \<in> set rs. key r' \<le> key r"
proof -
  let ?s = "sort_key key xs"
  have srt: "sorted (map key ?s)" by (rule sorted_sort_key)
  show "sorted (map key rs)"
  proof (cases lim)
    case None
    with assms srt show ?thesis by simp
  next
    case (Some n)
    have "sorted (take n (map key ?s))" using srt by (rule sorted_wrt_take)
    with Some assms show ?thesis by (simp add: take_map)
  qed
  have split: "mset (take n ?s) + mset (drop n ?s) = mset xs" for n
  proof -
    have "mset (take n ?s @ drop n ?s) = mset xs" by simp
    then show ?thesis by (simp only: mset_append)
  qed
  show "mset rs \<subseteq># mset xs"
  proof (cases lim)
    case None
    with assms show ?thesis by simp
  next
    case (Some n)
    have "mset (take n ?s) \<subseteq># mset (take n ?s) + mset (drop n ?s)" by simp
    with assms Some show ?thesis by (simp only: split option.case)
  qed
  show "length rs = (case lim of None \<Rightarrow> length xs | Some n \<Rightarrow> min n (length xs))"
    using assms by (cases lim) (simp_all add: min.commute)
  show "\<forall>r \<in># mset xs - mset rs. \<forall>r' \<in> set rs. key r' \<le> key r"
  proof (cases lim)
    case None
    with assms show ?thesis by simp
  next
    case (Some n)
    have rest: "mset xs - mset rs = mset (drop n ?s)"
      using assms Some by (simp add: split [of n, symmetric])
    have "sorted (map key (take n ?s @ drop n ?s))" using srt by simp
    then have "\<forall>a \<in> set (take n ?s). \<forall>b \<in> set (drop n ?s). key a \<le> key b"
      unfolding map_append sorted_append by auto
    with rest assms Some show ?thesis by auto
  qed
qed

lemma get_transforms_by_status_eq:
  "get_transforms_by_status tbl now1 now2 sel period lock bulk_size to_json =
     Inr (map (render to_json)
       (case effective bulk_size of
          None \<Rightarrow> sort_key transform_order
                    (filter (due_transform now1 now2 (requested sel) (effective period) lock) tbl)
        | Some n \<Rightarrow> take n (sort_key transform_order
                    (filter (due_transform now1 now2 (requested sel) (effective period) lock) tbl))))"
proof -
  have f: "(case period of
              Some p \<Rightarrow> if p \<noteq> 0 then filter (\<lambda>r. t_updated_at r < now2 - p) q else q
            | None \<Rightarrow> q)
           = filter (\<lambda>r. case effective period of None \<Rightarrow> True | Some p \<Rightarrow> t_updated_at r < now2 - p) q"
    for q :: "transform list"
    by (cases period) (simp_all add: effective_def)
  have l: "(if lock then filter (\<lambda>r. t_locking r = TransformLocking_Idle) q else q)
           = filter (\<lambda>r. lock \<longrightarrow> t_locking r = TransformLocking_Idle) q"
    for q :: "transform list"
    by simp
  have b: "(case bulk_size of Some n \<Rightarrow> if n \<noteq> 0 then take n q else q | None \<Rightarrow> q)
           = (case effective bulk_size of None \<Rightarrow> q | Some n \<Rightarrow> take n q)"
    for q :: "transform list"
    by (cases bulk_size) (simp_all add: effective_def)
  have d: "filter (\<lambda>r. lock \<longrightarrow> t_locking r = TransformLocking_Idle)
             (filter (\<lambda>r. case effective period of None \<Rightarrow> True | Some p \<Rightarrow> t_updated_at r < now2 - p)
               (filter (\<lambda>r. t_next_poll_at r < now1)
                 (filter (\<lambda>r. t_status r \<in> set (status_list sel)) tbl)))
           = filter (due_transform now1 now2 (requested sel) (effective period) lock) tbl"
    unfolding filter_filter set_status_list due_transform_def
    by (rule filter_cong) auto
  show ?thesis
    unfolding get_transforms_by_status_def Let_def f l b d ..
qed

lemma get_processings_by_status_eq:
  "get_processings_by_status tbl now1 now2 sel period lock bulk_size None to_json =
     Inr (map (render to_json)
       (case effective bulk_size of
          None \<Rightarrow> sort_key updated_at
                    (filter (due_processing now1 now2 (requested sel) (effective period) lock) tbl)
        | Some n \<Rightarrow> take n (sort_key updated_at
                    (filter (due_processing now1 now2 (requested sel) (effective period) lock) tbl))))"
proof -
  have f: "(case period of
              Some p \<Rightarrow> if p \<noteq> 0 then filter (\<lambda>r. updated_at r < now2 - p) q else q
            | None \<Rightarrow> q)
           = filter (\<lambda>r. case effective period of None \<Rightarrow> True | Some p \<Rightarrow> updated_at r < now2 - p) q"
    for q :: "processing list"
    by (cases period) (simp_all add: effective_def)
  have l: "(if lock then filter (\<lambda>r. locking r = ProcessingLocking_Idle) q else q)
           = filter (\<lambda>r. lock \<longrightarrow> locking r = ProcessingLocking_Idle) q"
    for q :: "processing list"
    by simp
  have b: "(case bulk_size of Some n \<Rightarrow> if n \<noteq> 0 then take n q else q | None \<Rightarrow> q)
           = (case effective bulk_size of None \<Rightarrow> q | Some n \<Rightarrow> take n q)"
    for q :: "processing list"
    by (cases bulk_size) (simp_all add: effective_def)
  have d: "filter (\<lambda>r. lock \<longrightarrow> locking r = ProcessingLocking_Idle)
             (filter (\<lambda>r. case effective period of None \<Rightarrow> True | Some p \<Rightarrow> updated_at r < now2 - p)
               (filter (\<lambda>r. next_poll_at r < now1)
                 (filter (\<lambda>r. status r \<in> set (status_list sel)) tbl)))
           = filter (due_processing now1 now2 (requested sel) (effective period) lock) tbl"
    unfolding filter_filter set_status_list due_processing_def
    by (rule filter_cong) auto
  show ?thesis
    unfolding get_processings_by_status_def Let_def option.case(1) f l b d ..
qed

lemma query_result_props:
  fixes key :: "'r \<Rightarrow> 'k::linorder"
  assumes "rs = (case lim of None \<Rightarrow> sort_key key (filter due tbl)
                 | Some n \<Rightarrow> take n (sort_key key (filter due tbl)))"
  shows "(\<forall>r \<in> set rs. r \<in> set tbl \<and> due r)
       \<and> mset rs \<subseteq># mset (filter due tbl)
       \<and> sorted (map key rs)
       \<and> (case lim of None \<Rightarrow> mset rs = mset (filter due tbl)
           | Some n \<Rightarrow> length rs = min n (length (filter due tbl)))
       \<and> (\<forall>r \<in># mset (filter due tbl) - mset rs. \<forall>r' \<in> set rs. key r' \<le> key r)"
proof -
  note p = limit_props [OF assms]
  have "set rs \<subseteq> set (filter due tbl)"
    using p(2) by (metis set_mset_mono set_mset_mset)
  then have m: "\<forall>r \<in> set rs. r \<in> set tbl \<and> due r" by auto
  have c: "(case lim of None \<Rightarrow> mset rs = mset (filter due tbl)
           | Some n \<Rightarrow> length rs = min n (length (filter due tbl)))"
    using assms p(3) by (cases lim) simp_all
  show ?thesis using m p(1) p(2) c p(4) by blast
qed

text \<open>
  C7, as the code has it. For every status selection, period, locking flag and bulk
  size, \<^verbatim>\<open>get_transforms_by_status\<close> and \<^verbatim>\<open>get_processings_by_status\<close> (without a
  submitter) return rows of the table that are due: the status is among those asked for,
  \<^verbatim>\<open>next_poll_at\<close> is before the first reading of the clock, the row is idle when the
  locking filter is on, and \<^verbatim>\<open>updated_at\<close> is before the second reading minus the
  period when a period other than 0 is given. The result is sorted by \<^verbatim>\<open>updated_at\<close>
  (for transforms by \<^verbatim>\<open>updated_at\<close>, then by descending priority). With no bulk size,
  or a bulk size of 0, it holds exactly the due rows; with a bulk size \<open>n\<close> other than 0
  it holds \<open>min n\<close> (number of due rows) of them, and no due row left out sorts before
  a row returned.
\<close>

theorem due_work_queries:
  "\<exists>ts ps.
     get_transforms_by_status ttbl now1 now2 tsel period lock bulk_size to_json
       = Inr (map (render to_json) ts) \<and>
     (\<forall>r \<in> set ts. r \<in> set ttbl
         \<and> due_transform now1 now2 (requested tsel) (effective period) lock r) \<and>
     mset ts \<subseteq># mset (filter (due_transform now1 now2 (requested tsel) (effective period) lock) ttbl) \<and>
     sorted (map transform_order ts) \<and>
     (case effective bulk_size of
        None \<Rightarrow> mset ts
                 = mset (filter (due_transform now1 now2 (requested tsel) (effective period) lock) ttbl)
      | Some n \<Rightarrow> length ts = min n (length
                   (filter (due_transform now1 now2 (requested tsel) (effective period) lock) ttbl))) \<and>
     (\<forall>r \<in># mset (filter (due_transform now1 now2 (requested tsel) (effective period) lock) ttbl)
              - mset ts.
        \<forall>r' \<in> set ts. transform_order r' \<le> transform_order r) \<and>
     get_processings_by_status ptbl now1 now2 psel period lock bulk_size None to_json
       = Inr (map (render to_json) ps) \<and>
     (\<forall>r \<in> set ps. r \<in> set ptbl
         \<and> due_processing now1 now2 (requested psel) (effective period) lock r) \<and>
     mset ps \<subseteq># mset (filter (due_processing now1 now2 (requested psel) (effective period) lock) ptbl) \<and>
     sorted (map updated_at ps) \<and>
     (case effective bulk_size of
        None \<Rightarrow> mset ps
                 = mset (filter (due_processing now1 now2 (requested psel) (effective period) lock) ptbl)
      | Some n \<Rightarrow> length ps = min n (length
                   (filter (due_processing now1 now2 (requested psel) (effective period) lock) ptbl))) \<and>
     (\<forall>r \<in># mset (filter (due_processing now1 now2 (requested psel) (effective period) lock) ptbl)
              - mset ps.
        \<forall>r' \<in> set ps. updated_at r' \<le> updated_at r)"
proof -
  define ts where "ts = (case effective bulk_size of
      None \<Rightarrow> sort_key transform_order
                (filter (due_transform now1 now2 (requested tsel) (effective period) lock) ttbl)
    | Some n \<Rightarrow> take n (sort_key transform_order
                (filter (due_transform now1 now2 (requested tsel) (effective period) lock) ttbl)))"
  define ps where "ps = (case effective bulk_size of
      None \<Rightarrow> sort_key updated_at
                (filter (due_processing now1 now2 (requested psel) (effective period) lock) ptbl)
    | Some n \<Rightarrow> take n (sort_key updated_at
                (filter (due_processing now1 now2 (requested psel) (effective period) lock) ptbl)))"
  have t: "get_transforms_by_status ttbl now1 now2 tsel period lock bulk_size to_json
             = Inr (map (render to_json) ts)"
    unfolding ts_def by (rule get_transforms_by_status_eq)
  have p: "get_processings_by_status ptbl now1 now2 psel period lock bulk_size None to_json
             = Inr (map (render to_json) ps)"
    unfolding ps_def by (rule get_processings_by_status_eq)
  show ?thesis
    using t p query_result_props [OF ts_def] query_result_props [OF ps_def] by blast
qed

theorem due_work_queries_witness:
  "\<exists>ts ps.
     get_transforms_by_status [example_transform, example_transform\<lparr>t_transform_id := 8\<rparr>]
         100 100 (One_status TransformStatus_New) (Some 10) True (Some 1) False
       = Inr (map (render False) ts) \<and> length ts = 1 \<and>
     get_processings_by_status [example_processing, example_processing\<lparr>processing_id := 2\<rparr>]
         100 100 (One_status ProcessingStatus_New) (Some 10) True (Some 1) None False
       = Inr (map (render False) ps) \<and> length ps = 1"
  using due_work_queries [of "[example_transform, example_transform\<lparr>t_transform_id := 8\<rparr>]"
      100 100 "One_status TransformStatus_New" "Some 10" True "Some 1" False
      "[example_processing, example_processing\<lparr>processing_id := 2\<rparr>]"
      "One_status ProcessingStatus_New"]
  by (auto simp: effective_def requested_def due_transform_def due_processing_def
      example_transform_def example_processing_def)

text \<open>
  C7 as stated fails for a bulk size of 0: \<^verbatim>\<open>if bulk_size:\<close> skips the limit, and the
  one due row of the table is returned, which is more than 0 rows.
\<close>

theorem bulk_size_zero_is_no_limit:
  "get_processings_by_status [example_processing] 100 100 (One_status ProcessingStatus_New)
       None False (Some 0) None False = Inr [To_dict example_processing]
   \<and> get_transforms_by_status [example_transform] 100 100 (One_status TransformStatus_New)
       None False (Some 0) False = Inr [To_dict example_transform]
   \<and> \<not> length [To_dict example_processing] \<le> (0::nat)
   \<and> \<not> length [To_dict example_transform] \<le> (0::nat)"
  by (simp add: get_processings_by_status_def get_transforms_by_status_def status_list_def
      render_def example_processing_def example_transform_def)

section \<open>New input/output maps\<close>

lemma fold_primary:
  "fold (\<lambda>ip p. if is_primary ip then ip else p) ips p0 =
     (case filter is_primary ips of [] \<Rightarrow> p0 | ip # ips' \<Rightarrow> last (ip # ips'))"
proof (induction ips arbitrary: p0)
  case Nil
  then show ?case by simp
next
  case (Cons ip ips)
  show ?case
    by (cases "filter is_primary ips") (simp_all add: Cons.IH)
qed

lemma get_mapped_inputs_primary:
  assumes "\<forall>m \<in> snd ` set maps. inputs m \<noteq> []"
  shows "get_mapped_inputs maps = Inr (map (primary_input \<circ> snd) maps)"
  using assms
proof (induction maps)
  case Nil
  then show ?case by simp
next
  case (Cons km maps)
  obtain k m where km: "km = (k, m)" by (cases km)
  from Cons.prems km obtain ip ips where ips: "inputs m = ip # ips"
    by (cases "inputs m") auto
  have rest: "get_mapped_inputs maps = Inr (map (primary_input \<circ> snd) maps)"
    using Cons by simp
  have "fold (\<lambda>ip p. if is_primary ip then ip else p) (inputs m) ip = primary_input m"
    unfolding fold_primary primary_input_def by (simp add: ips split: list.splits)
  then show ?case
    by (simp add: km rest ips first_item_def then_do_def)
qed

lemma py_max_Max: "ks \<noteq> [] \<Longrightarrow> py_max ks = Max (set ks)"
proof (cases ks)
  case Nil
  assume "ks \<noteq> []"
  with Nil show ?thesis by simp
next
  case (Cons k ks')
  then show ?thesis using Max.set_eq_fold [of k ks'] by simp
qed

lemma add_new_maps_keys:
  assumes "output_collections w = oc # ocs" and "map_of (collections w) oc = Some ocoll"
  shows "add_new_maps w k ips =
           Inr (zip [k ..  k + int (length ips) - 1] (map (new_map (col_coll_id ocoll)) ips))"
proof (induction ips arbitrary: k)
  case Nil
  then show ?case by simp
next
  case (Cons ip ips)
  have "[k .. k + int (length (ip # ips)) - 1] = k # [k + 1 .. k + 1 + int (length ips) - 1]"
    by (subst upto_rec1) (simp_all add: add.commute add.left_commute)
  then show ?case
    using assms by (simp add: Cons.IH first_item_def dict_get_def then_do_def new_map_def)
qed

lemma input_contents_primary:
  assumes "get_input_contents w ds = Inr discovered"
  obtains pcoll where "map_of (collections w) (primary_input_collection w) = Some pcoll"
  using assms
  by (auto simp: get_input_contents_def then_do_def dict_get_def
      split: sum.splits option.splits)

lemma then_do_Inr: "then_do (Inr v) f = f v"
  by (simp add: then_do_def)

lemma mapped_names:
  "set (map scope_name (map (primary_input \<circ> snd) maps)) = mapped_scope_name maps"
  by (simp add: mapped_scope_name_def image_image)

lemma get_new_input_output_maps_run:
  assumes "get_input_contents w ds = Inr discovered"
      and "\<forall>m \<in> snd ` set maps. inputs m \<noteq> []"
      and "map_of (collections w) (primary_input_collection w) = Some pcoll"
  shows "get_new_input_output_maps w ds maps =
           (let new_files = filter (\<lambda>f. scope_name f \<notin> mapped_scope_name maps) discovered;
                first_key = (if maps = [] then 1 else Max (fst ` set maps) + 1)
            in if new_files = [] \<and> col_status pcoll = CollectionStatus_Closed
               then Inr ([], w\<lparr>has_new_inputs := False\<rparr>)
               else then_do (add_new_maps w first_key new_files) (\<lambda>new_maps. Inr (new_maps, w)))"
proof -
  have mapped: "get_mapped_inputs maps = Inr (map (primary_input \<circ> snd) maps)"
    by (rule get_mapped_inputs_primary [OF assms(2)])
  have key: "(if map fst maps \<noteq> [] then py_max (map fst maps) + 1 else 1)
             = (if maps = [] then 1 else Max (fst ` set maps) + 1)"
  proof (cases maps)
    case Nil
    then show ?thesis by simp
  next
    case (Cons km maps')
    then have "map fst maps \<noteq> []" by simp
    from py_max_Max [OF this] Cons show ?thesis by simp
  qed
  have coll: "dict_get (collections w) (primary_input_collection w) = Inr pcoll"
    by (simp add: dict_get_def assms(3))
  have closed: "(col_status pcoll \<in> set [CollectionStatus_Closed])
                  = (col_status pcoll = CollectionStatus_Closed)"
    by simp
  show ?thesis
    unfolding get_new_input_output_maps_def assms(1) mapped then_do_Inr Let_def mapped_names
      key coll closed
    by simp
qed

lemma example_discovered:
  "get_input_contents example_work example_service =
     Inr [file_content \<lparr>col_scope = ''u'', col_name = ''ds1'', col_coll_id = 1,
                        col_status = CollectionStatus_Open\<rparr>
            \<lparr>f_scope = ''u'', f_name = ''f1'', f_bytes = 10, f_adler32 = ''a1'', f_events = 5\<rparr>,
          file_content \<lparr>col_scope = ''u'', col_name = ''ds1'', col_coll_id = 1,
                        col_status = CollectionStatus_Open\<rparr>
            \<lparr>f_scope = ''u'', f_name = ''f2'', f_bytes = 20, f_adler32 = ''a2'', f_events = 6\<rparr>]"
  by (simp add: get_input_contents_def get_rucio_client_def dict_get_def then_do_def
      example_work_def example_service_def)

lemma example_mapped_names:
  "mapped_scope_name [(1::int, new_map 2 (example_input ''f1''))] = {''u:f1''}"
  "mapped_scope_name [(1::int, new_map 2 (example_input ''f1'')),
                      (2, new_map 2 (example_input ''f2''))] = {''u:f1'', ''u:f2''}"
  by (auto simp: mapped_scope_name_def primary_input_def is_primary_def new_map_def
      example_input_def scope_name_def)

text \<open>
  C4. Let the files of the primary input collection be discovered, let every existing
  map have an input, and let the primary input collection and the first output
  collection be registered. Then \<^verbatim>\<open>get_new_input_output_maps\<close> returns one new map for
  every discovered file whose \<^verbatim>\<open>"scope:name"\<close> is not that of the primary input of an
  existing map, in the order of discovery; each is \<^verbatim>\<open>{inputs: [file], outputs: [copy of
  the file with the coll_id of the first output collection]}\<close>; the keys are consecutive
  integers from the largest existing key plus 1, or from 1 when the table is empty; and
  \<^verbatim>\<open>has_new_inputs\<close> is set to \<^verbatim>\<open>False\<close> when there is no new file and the primary input
  collection is Closed, and the work is unchanged otherwise.
\<close>

theorem new_maps_for_new_files:
  assumes discovered: "get_input_contents w ds = Inr discovered"
      and nonempty: "\<forall>m \<in> snd ` set maps. inputs m \<noteq> []"
      and primary: "map_of (collections w) (primary_input_collection w) = Some pcoll"
      and out: "output_collections w = oc # ocs" "map_of (collections w) oc = Some ocoll"
  shows "\<exists>new_maps w'.
           get_new_input_output_maps w ds maps = Inr (new_maps, w') \<and>
           map snd new_maps
             = map (new_map (col_coll_id ocoll))
                 (filter (\<lambda>f. scope_name f \<notin> mapped_scope_name maps) discovered) \<and>
           map fst new_maps
             = (let first_key = (if maps = [] then 1 else Max (fst ` set maps) + 1)
                in [first_key .. first_key + int (length new_maps) - 1]) \<and>
           w' = (if new_maps = [] \<and> col_status pcoll = CollectionStatus_Closed
                 then w\<lparr>has_new_inputs := False\<rparr> else w)"
proof -
  define new_files where
    "new_files = filter (\<lambda>f. scope_name f \<notin> mapped_scope_name maps) discovered"
  define first_key where "first_key = (if maps = [] then 1 else Max (fst ` set maps) + 1)"
  define entries where
    "entries = zip [first_key .. first_key + int (length new_files) - 1]
                 (map (new_map (col_coll_id ocoll)) new_files)"
  have add: "add_new_maps w first_key new_files = Inr entries"
    unfolding entries_def by (rule add_new_maps_keys [OF out])
  have len: "length [first_key .. first_key + int (length new_files) - 1] = length new_files"
    by simp
  have snd_e: "map snd entries = map (new_map (col_coll_id ocoll)) new_files"
    unfolding entries_def using len by (simp add: map_snd_zip)
  have len_e: "length entries = length new_files"
    unfolding entries_def using len by simp
  have fst_e: "map fst entries = [first_key .. first_key + int (length entries) - 1]"
    unfolding len_e unfolding entries_def using len by (simp add: map_fst_zip)
  have empty: "entries = [] \<longleftrightarrow> new_files = []"
    using len_e by (metis length_0_conv)
  have run: "get_new_input_output_maps w ds maps =
          Inr (entries, if entries = [] \<and> col_status pcoll = CollectionStatus_Closed
                        then w\<lparr>has_new_inputs := False\<rparr> else w)"
    unfolding get_new_input_output_maps_run [OF discovered nonempty primary]
      new_files_def [symmetric] first_key_def [symmetric] Let_def add then_do_Inr
    using empty by auto
  show ?thesis
    using run snd_e fst_e
    unfolding new_files_def [symmetric] first_key_def [symmetric] Let_def by blast
qed

theorem new_maps_for_new_files_witness:
  "\<exists>new_maps w'.
     get_new_input_output_maps example_work example_service
       [(1, new_map 2 (example_input ''f1''))] = Inr (new_maps, w') \<and>
     map (map scope_name \<circ> inputs \<circ> snd) new_maps = [[''u:f2'']] \<and>
     map (map coll_id \<circ> outputs \<circ> snd) new_maps = [[2]] \<and>
     map fst new_maps = [2] \<and> w' = example_work"
proof -
  have nonempty: "\<forall>m \<in> snd ` set [(1::int, new_map 2 (example_input ''f1''))]. inputs m \<noteq> []"
    by (simp add: new_map_def)
  have primary: "map_of (collections example_work) (primary_input_collection example_work)
      = Some \<lparr>col_scope = ''u'', col_name = ''ds1'', col_coll_id = 1,
               col_status = CollectionStatus_Open\<rparr>"
    by (simp add: example_work_def)
  have out: "output_collections example_work = ''out'' # []"
    "map_of (collections example_work) ''out''
      = Some \<lparr>col_scope = ''u'', col_name = ''ds1.out'', col_coll_id = 2,
               col_status = CollectionStatus_Open\<rparr>"
    by (simp_all add: example_work_def)
  obtain new_maps w' where
    run: "get_new_input_output_maps example_work example_service
            [(1, new_map 2 (example_input ''f1''))] = Inr (new_maps, w')"
    and entries: "map snd new_maps = [new_map 2 (file_content
            \<lparr>col_scope = ''u'', col_name = ''ds1'', col_coll_id = 1,
              col_status = CollectionStatus_Open\<rparr>
            \<lparr>f_scope = ''u'', f_name = ''f2'', f_bytes = 20, f_adler32 = ''a2'', f_events = 6\<rparr>)]"
    and keys: "map fst new_maps = [2 .. 2 + int (length new_maps) - 1]"
    and work: "w' = (if new_maps = [] then example_work else example_work)"
    using new_maps_for_new_files [OF example_discovered nonempty primary out]
    by (auto simp: example_mapped_names scope_name_def file_content_def Let_def)
  from entries have "length (map snd new_maps) = 1" by simp
  then have len: "length new_maps = 1" by simp
  have k: "map fst new_maps = [2]" using keys unfolding len by simp
  have i: "map (map scope_name \<circ> inputs \<circ> snd) new_maps = [[''u:f2'']]"
    using arg_cong [OF entries, of "map (map scope_name \<circ> inputs)"]
    by (simp add: new_map_def file_content_def scope_name_def)
  have c: "map (map coll_id \<circ> outputs \<circ> snd) new_maps = [[2]]"
    using arg_cong [OF entries, of "map (map coll_id \<circ> outputs)"]
    by (simp add: new_map_def)
  show ?thesis using run k i c work by simp
qed

text \<open>
  C5. When every discovered file is already the primary input of an existing map (and
  every existing map has an input), \<^verbatim>\<open>get_new_input_output_maps\<close> returns an empty
  delta, and run again on the resulting work and on the table with that delta added it
  returns the same empty delta and the same work.
\<close>

theorem no_new_files_empty_delta:
  assumes discovered: "get_input_contents w ds = Inr discovered"
      and nonempty: "\<forall>m \<in> snd ` set maps. inputs m \<noteq> []"
      and covered: "\<forall>f \<in> set discovered. scope_name f \<in> mapped_scope_name maps"
  shows "\<exists>w'. get_new_input_output_maps w ds maps = Inr ([], w') \<and>
              get_new_input_output_maps w' ds (maps @ []) = Inr ([], w')"
proof -
  obtain pcoll where primary: "map_of (collections w) (primary_input_collection w) = Some pcoll"
    using discovered by (rule input_contents_primary)
  define w' where "w' = (if col_status pcoll = CollectionStatus_Closed
                         then w\<lparr>has_new_inputs := False\<rparr> else w)"
  have flt: "filter (\<lambda>f. scope_name f \<notin> mapped_scope_name maps) discovered = []"
    using covered by (simp add: filter_empty_conv)
  have same: "collections w' = collections w"
       "primary_input_collection w' = primary_input_collection w"
    by (simp_all add: w'_def)
  have discovered': "get_input_contents w' ds = Inr discovered"
    using discovered by (simp add: get_input_contents_def same)
  have primary': "map_of (collections w') (primary_input_collection w') = Some pcoll"
    using primary by (simp add: same)
  have one: "get_new_input_output_maps w ds maps = Inr ([], w')"
    unfolding get_new_input_output_maps_run [OF discovered nonempty primary] flt Let_def
    by (simp add: w'_def then_do_def)
  have two: "get_new_input_output_maps w' ds maps = Inr ([], w')"
    unfolding get_new_input_output_maps_run [OF discovered' nonempty primary'] flt Let_def
    by (simp add: w'_def then_do_def)
  show ?thesis using one two by simp
qed

theorem no_new_files_empty_delta_witness:
  "\<exists>w'. get_new_input_output_maps example_work example_service
           [(1, new_map 2 (example_input ''f1'')), (2, new_map 2 (example_input ''f2''))]
            = Inr ([], w') \<and>
         get_new_input_output_maps w' example_service
           ([(1, new_map 2 (example_input ''f1'')), (2, new_map 2 (example_input ''f2''))] @ [])
            = Inr ([], w')"
proof -
  have nonempty: "\<forall>m \<in> snd ` set [(1::int, new_map 2 (example_input ''f1'')),
                                     (2, new_map 2 (example_input ''f2''))]. inputs m \<noteq> []"
    by (simp add: new_map_def)
  have covered: "\<forall>f \<in> set [file_content \<lparr>col_scope = ''u'', col_name = ''ds1'', col_coll_id = 1,
                        col_status = CollectionStatus_Open\<rparr>
            \<lparr>f_scope = ''u'', f_name = ''f1'', f_bytes = 10, f_adler32 = ''a1'', f_events = 5\<rparr>,
          file_content \<lparr>col_scope = ''u'', col_name = ''ds1'', col_coll_id = 1,
                        col_status = CollectionStatus_Open\<rparr>
            \<lparr>f_scope = ''u'', f_name = ''f2'', f_bytes = 20, f_adler32 = ''a2'', f_events = 6\<rparr>].
        scope_name f \<in> mapped_scope_name [(1::int, new_map 2 (example_input ''f1'')),
                                     (2, new_map 2 (example_input ''f2''))]"
    by (simp add: example_mapped_names scope_name_def file_content_def)
  show ?thesis
    by (rule no_new_files_empty_delta [OF example_discovered nonempty covered])
qed

section \<open>Submitting the processing\<close>

text \<open>
  C1 fails on the code. \<^verbatim>\<open>create_processing\<close> always writes the key \<^verbatim>\<open>rule_id\<close> into
  the metadata (here with the value \<^verbatim>\<open>None\<close>, the default of the work), and
  \<^verbatim>\<open>submit_processing\<close> tests for the key, not for its value: on the processing that
  \<^verbatim>\<open>create_processing\<close> made it changes nothing, asks the service for no rule (the
  service, whose \<^verbatim>\<open>add_replication_rule\<close> would have returned \<^verbatim>\<open>"R"\<close>, is as before
  with an empty log), and \<^verbatim>\<open>rule_id\<close> stays \<^verbatim>\<open>None\<close>. The same holds for every work
  without an active processing, every fresh id and every service.
\<close>

theorem submit_after_create_makes_no_rule:
  "submit_processing (create_processing_work (w\<lparr>active_processings := []\<rparr>) uuid) ds
     = (Inr (create_processing_work (w\<lparr>active_processings := []\<rparr>) uuid), ds)
   \<and> submit_processing (create_processing_work example_work ''uuid-1'') example_service
     = (Inr (create_processing_work example_work ''uuid-1''), example_service)
   \<and> map_option (m_rule_id \<circ> metadata)
         (map_of (processings (create_processing_work example_work ''uuid-1'')) ''uuid-1'')
       = Some (Some None)
   \<and> rule_requests example_service = []
   \<and> add_replication_rule_outcome example_service = Returns_id ''R''"
  by (simp add: submit_processing_def create_processing_work_def example_work_def
      example_service_def dict_get_def update_conv')

section \<open>Creating the rule\<close>

text \<open>
  C6 fails on the code. When \<^verbatim>\<open>add_replication_rule\<close> raises \<^verbatim>\<open>DuplicateRule\<close>, the
  handler subscripts the key \<^verbatim>\<open>self.primary_input_collection\<close> with \<^verbatim>\<open>'scope'\<close> and
  \<^verbatim>\<open>create_rule\<close> raises \<^verbatim>\<open>TypeError\<close>; when the work has no attribute \<^verbatim>\<open>lifetime\<close>
  the call is never made and \<^verbatim>\<open>create_rule\<close> returns \<^verbatim>\<open>None\<close>. Either way the rule
  \<^verbatim>\<open>"R0"\<close> of the same account and destination, which the search would adopt, is not
  returned.
\<close>

theorem create_rule_duplicate_raises:
  "fst (create_rule example_work
          (example_service\<lparr>add_replication_rule_outcome := Raises_DuplicateRule\<rparr>))
     = Inl TypeError
   \<and> fst (create_rule (example_work\<lparr>lifetime := None\<rparr>)
          (example_service\<lparr>add_replication_rule_outcome := Raises_DuplicateRule\<rparr>))
     = Inr None
   \<and> adopt_rule (list_did_rules example_service ''u'' ''ds1'') (account example_service)
        (dest_rse example_work) = Some ''R0''"
  by (simp add: create_rule_def example_work_def example_service_def dict_get_def
      get_rucio_client_def subscript_str_def then_do_def adopt_rule_def list_did_rules_def)

section \<open>Rollup of the status\<close>

text \<open>
  C2 fails on the code. With no active processing, no new inputs and one registered map
  whose only output is Available, \<^verbatim>\<open>syn_work_status\<close> raises \<^verbatim>\<open>KeyError\<close>
  (\<^verbatim>\<open>get_status_statistics\<close> reads \<^verbatim>\<open>registered_input_output_maps['map_id']\<close>) instead
  of setting the status to Finished.
\<close>

theorem syn_work_status_raises_KeyError:
  "syn_work_status (example_work\<lparr>has_new_inputs := False\<rparr>)
     [(Int_key 1, \<lparr>inputs = [example_output],
                    outputs = [example_output\<lparr>c_status := Some ContentStatus_Available\<rparr>]\<rparr>)]
     = Inl KeyError"
  by (simp add: syn_work_status_def get_status_statistics_def dict_get_def then_do_def)

section \<open>Polling the processing\<close>

text \<open>
  C3 fails on the code. The rule is OK and has one replica lock in state OK, for the
  only output; \<^verbatim>\<open>poll_rule\<close> records \<^verbatim>\<open>ContentStatus.Available\<close> for it, and
  \<^verbatim>\<open>poll_processing_updates\<close> raises \<^verbatim>\<open>TypeError\<close> on
  \<^verbatim>\<open>rep_status[key]['substatus']\<close> instead of returning the delta and the update to
  Finished.
\<close>

theorem poll_processing_updates_raises_TypeError:
  "poll_processing_updates
     (example_work\<lparr>processings :=
         [(''uuid-1'', \<lparr>proc_processing_id = Some 3,
              metadata = \<lparr>internal_id = ''uuid-1'', m_src_rse = Some ''SRC'',
                 m_dest_rse = Some ''DST'', m_life_time = 604800,
                 m_rule_id = Some (Some ''R'')\<rparr>\<rparr>)],
        active_processings := [''uuid-1'']\<rparr>)
     example_service
     [(1::int, \<lparr>inputs = [example_output], outputs = [example_output]\<rparr>)]
     = Inl TypeError"
  by (simp add: poll_processing_updates_def poll_processing_def poll_rule_def
      example_work_def example_service_def example_output_def dict_get_def first_item_def
      field_get_def get_rucio_client_def get_replication_rule_def record_lock_def
      poll_outputs_def poll_content_def subscript_ContentStatus_def then_do_def)

end
